theory Spec2Isabelle
  imports Complex_Main "HOL-Library.Char_ord" "HOL-Library.List_Lexorder"
begin

section \<open>JavaScript values used by the geocoder\<close>

text \<open>
  The two programs verified here are \<^verbatim>\<open>dist/geocoder.js\<close> (the \<^verbatim>\<open>gc\<close> API, version 1.0.0)
  and the older \<^verbatim>\<open>search_api.js\<close> (version 2.0). Both are JavaScript, so the embedding
  fixes how JavaScript values are read:

  \<^item> a string is a \<^typ>\<open>string\<close>; a character is read as the code point of the same number
    (0 to 255);
  \<^item> a number is a \<^typ>\<open>real\<close>, and \<open>NaN\<close> is \<open>None\<close>: arithmetic is exact, so the
    rounding of IEEE doubles, the signed zero and the infinities are outside the model (no
    literal of the upper-cased search text denotes an infinity other than by overflow);
  \<^item> \<^verbatim>\<open>undefined\<close> is \<open>None\<close> of an option type.
\<close>

type_synonym jsnum = "real option"

abbreviation NaN :: jsnum where
  "NaN \<equiv> None"

definition num_add :: "jsnum \<Rightarrow> jsnum \<Rightarrow> jsnum" where
  "num_add a b = (case (a, b) of (Some x, Some y) \<Rightarrow> Some (x + y) | _ \<Rightarrow> NaN)"

definition num_mul :: "jsnum \<Rightarrow> jsnum \<Rightarrow> jsnum" where
  "num_mul a b = (case (a, b) of (Some x, Some y) \<Rightarrow> Some (x * y) | _ \<Rightarrow> NaN)"

text \<open>Division by a non-zero constant, as in \<^verbatim>\<open>Number(m) / 60\<close>.\<close>

definition num_over :: "jsnum \<Rightarrow> real \<Rightarrow> jsnum" where
  "num_over a k = map_option (\<lambda>x. x / k) a"

definition num_neg :: "jsnum \<Rightarrow> jsnum" where
  "num_neg a = map_option uminus a"

definition Math_sign :: "jsnum \<Rightarrow> jsnum" where
  "Math_sign a = map_option sgn a"

definition Math_abs :: "jsnum \<Rightarrow> jsnum" where
  "Math_abs a = map_option abs a"

text \<open>\<^verbatim>\<open>Math.round\<close> rounds to the nearest integer, a tie towards plus infinity.\<close>

definition Math_round :: "real \<Rightarrow> real" where
  "Math_round x = of_int \<lfloor>x + 1 / 2\<rfloor>"

text \<open>
  \<^verbatim>\<open>Number(x.toFixed(n))\<close>: \<^verbatim>\<open>toFixed\<close> writes the sign and then the magnitude rounded to
  \<open>n\<close> decimals, a tie away from zero.
\<close>

definition toFixed_number :: "nat \<Rightarrow> real \<Rightarrow> real" where
  "toFixed_number n x = sgn x * of_int \<lfloor>\<bar>x\<bar> * 10 ^ n + 1 / 2\<rfloor> / 10 ^ n"

subsection \<open>Characters and strings\<close>

definition is_digit :: "char \<Rightarrow> bool" where
  "is_digit c = (CHR ''0'' \<le> c \<and> c \<le> CHR ''9'')"

definition is_upper :: "char \<Rightarrow> bool" where
  "is_upper c = (CHR ''A'' \<le> c \<and> c \<le> CHR ''Z'')"

definition is_lower :: "char \<Rightarrow> bool" where
  "is_lower c = (CHR ''a'' \<le> c \<and> c \<le> CHR ''z'')"

text \<open>
  \<^verbatim>\<open>toUpperCase\<close>: the letters a to z, the accented letters 0xE0 to 0xFE (but not the
  division sign 0xF7), and the sharp s 0xDF, whose upper case is the two letters SS. The
  micro sign 0xB5 and the letter 0xFF have an upper case above 255; they are left in place,
  and every use of the result here either discards them or compares them with plain
  letters.
\<close>

definition upper_char :: "char \<Rightarrow> string" where
  "upper_char c =
     (if is_lower c \<or> (CHR 0xE0 \<le> c \<and> c \<le> CHR 0xFE \<and> c \<noteq> CHR 0xF7)
        then [char_of (of_char c - 32 :: nat)]
      else if c = CHR 0xDF then ''SS''
      else [c])"

definition toUpperCase :: "string \<Rightarrow> string" where
  "toUpperCase s = concat (map upper_char s)"

text \<open>\<^verbatim>\<open>toLowerCase\<close>: A to Z and 0xC0 to 0xDE (but not the multiplication sign 0xD7).\<close>

definition lower_char :: "char \<Rightarrow> char" where
  "lower_char c =
     (if is_upper c \<or> (CHR 0xC0 \<le> c \<and> c \<le> CHR 0xDE \<and> c \<noteq> CHR 0xD7)
        then char_of (of_char c + 32 :: nat)
      else c)"

definition toLowerCase :: "string \<Rightarrow> string" where
  "toLowerCase s = map lower_char s"

text \<open>The white space of \<^verbatim>\<open>\s\<close> and of \<^verbatim>\<open>trim\<close>, among the code points below 256.\<close>

definition is_space :: "char \<Rightarrow> bool" where
  "is_space c = (c \<in> set [CHR 0x09, CHR 0x0A, CHR 0x0B, CHR 0x0C, CHR 0x0D, CHR 0x20, CHR 0xA0])"

definition trim :: "string \<Rightarrow> string" where
  "trim s = rev (dropWhile is_space (rev (dropWhile is_space s)))"

text \<open>\<^verbatim>\<open>s.replace(/\s+/g, r)\<close>: every maximal run of white space becomes \<open>r\<close>.\<close>

fun replace_runs :: "(char \<Rightarrow> bool) \<Rightarrow> string \<Rightarrow> bool \<Rightarrow> string \<Rightarrow> string" where
  "replace_runs p r inrun [] = []"
| "replace_runs p r inrun (c # cs) =
     (if p c then (if inrun then replace_runs p r True cs else r @ replace_runs p r True cs)
      else c # replace_runs p r False cs)"

definition collapse_spaces :: "string \<Rightarrow> string \<Rightarrow> string" where
  "collapse_spaces r s = replace_runs is_space r False s"

text \<open>\<^verbatim>\<open>s.split(c)\<close> on a one-character separator: never the empty list.\<close>

fun split_on :: "char \<Rightarrow> string \<Rightarrow> string list" where
  "split_on c [] = [[]]"
| "split_on c (x # xs) =
     (if x = c then [] # split_on c xs
      else (case split_on c xs of w # ws \<Rightarrow> (x # w) # ws | [] \<Rightarrow> [[x]]))"

fun join :: "string \<Rightarrow> string list \<Rightarrow> string" where
  "join sep [] = []"
| "join sep [w] = w"
| "join sep (w # ws) = w @ sep @ join sep ws"

text \<open>\<^verbatim>\<open>s.includes(t)\<close>: \<open>t\<close> occurs in \<open>s\<close>.\<close>

fun str_includes :: "string \<Rightarrow> string \<Rightarrow> bool" where
  "str_includes [] t = (t = [])"
| "str_includes (c # cs) t = (take (length t) (c # cs) = t \<or> str_includes cs t)"

subsection \<open>Reading numbers out of strings\<close>

definition digit_val :: "char \<Rightarrow> int" where
  "digit_val c =
     (if is_digit c then of_char c - 48
      else if CHR ''A'' \<le> c \<and> c \<le> CHR ''F'' then of_char c - 55
      else if CHR ''a'' \<le> c \<and> c \<le> CHR ''f'' then of_char c - 87
      else 0)"

definition digits_val :: "int \<Rightarrow> string \<Rightarrow> int" where
  "digits_val b ds = foldl (\<lambda>a c. b * a + digit_val c) 0 ds"

text \<open>
  The exponent part of a decimal literal: \<^verbatim>\<open>e\<close> or \<^verbatim>\<open>E\<close>, an optional sign, and at
  least one digit. Without a digit nothing is consumed.
\<close>

definition scan_exponent :: "string \<Rightarrow> int \<times> string" where
  "scan_exponent s =
     (case s of
        [] \<Rightarrow> (0, s)
      | c # t \<Rightarrow>
          if c = CHR ''e'' \<or> c = CHR ''E'' then
            (let signed = (t \<noteq> [] \<and> (hd t = CHR ''-'' \<or> hd t = CHR ''+''));
                 u = (if signed then tl t else t);
                 ds = takeWhile is_digit u;
                 e = digits_val 10 ds
             in if ds = [] then (0, s)
                else (if signed \<and> hd t = CHR ''-'' then - e else e, dropWhile is_digit u))
          else (0, s))"

text \<open>
  The longest prefix that is an unsigned decimal literal (digits, an optional fraction,
  an optional exponent), with its value and the text after it.
\<close>

definition scan_unsigned :: "string \<Rightarrow> (real \<times> string) option" where
  "scan_unsigned s =
     (let ip = takeWhile is_digit s;
          r1 = dropWhile is_digit s;
          dot = (r1 \<noteq> [] \<and> hd r1 = CHR ''.'');
          fp = (if dot then takeWhile is_digit (tl r1) else []);
          r2 = (if dot then dropWhile is_digit (tl r1) else r1)
      in if ip = [] \<and> fp = [] then None
         else
           (let m = of_int (digits_val 10 ip) + of_int (digits_val 10 fp) / 10 ^ length fp;
                (e, r3) = scan_exponent r2
            in Some (if 0 \<le> e then m * 10 ^ nat e else m / 10 ^ nat (- e), r3)))"

definition scan_signed :: "string \<Rightarrow> (real \<times> string) option" where
  "scan_signed s =
     (case s of
        [] \<Rightarrow> None
      | c # t \<Rightarrow>
          if c = CHR ''-'' then map_option (\<lambda>(v, r). (- v, r)) (scan_unsigned t)
          else if c = CHR ''+'' then scan_unsigned t
          else scan_unsigned s)"

text \<open>\<^verbatim>\<open>parseFloat\<close>: leading white space is skipped, and what follows the literal is ignored.\<close>

definition parseFloat :: "string \<Rightarrow> jsnum" where
  "parseFloat s = map_option fst (scan_signed (dropWhile is_space s))"

text \<open>The literals \<^verbatim>\<open>0x..\<close>, \<^verbatim>\<open>0o..\<close> and \<^verbatim>\<open>0b..\<close>, which \<^verbatim>\<open>Number\<close> reads and \<^verbatim>\<open>parseFloat\<close> does not.\<close>

definition radix_literal :: "string \<Rightarrow> real option" where
  "radix_literal s =
     (case s of
        z # x # ds \<Rightarrow>
          if z \<noteq> CHR ''0'' \<or> ds = [] then None
          else if (x = CHR ''x'' \<or> x = CHR ''X'') \<and>
                  list_all (\<lambda>c. is_digit c \<or> CHR ''A'' \<le> c \<and> c \<le> CHR ''F'' \<or> CHR ''a'' \<le> c \<and> c \<le> CHR ''f'') ds
            then Some (of_int (digits_val 16 ds))
          else if (x = CHR ''o'' \<or> x = CHR ''O'') \<and> list_all (\<lambda>c. CHR ''0'' \<le> c \<and> c \<le> CHR ''7'') ds
            then Some (of_int (digits_val 8 ds))
          else if (x = CHR ''b'' \<or> x = CHR ''B'') \<and> list_all (\<lambda>c. c = CHR ''0'' \<or> c = CHR ''1'') ds
            then Some (of_int (digits_val 2 ds))
          else None
      | _ \<Rightarrow> None)"

text \<open>
  \<^verbatim>\<open>Number\<close> of a string: the whole trimmed string must be one literal, and the empty
  string is zero. The literal \<^verbatim>\<open>Infinity\<close> is not read: both programs put the text in
  upper case before they read numbers in it.
\<close>

definition Number :: "string \<Rightarrow> jsnum" where
  "Number s =
     (let t = trim s
      in if t = [] then Some 0
         else (case radix_literal t of
                 Some v \<Rightarrow> Some v
               | None \<Rightarrow> (case scan_signed t of Some (v, []) \<Rightarrow> Some v | _ \<Rightarrow> NaN)))"

section \<open>geocoder.js: options, configuration and the parsed input\<close>

text \<open>
  An option value is any JavaScript value. Objects are lists of properties, in the order of
  \<^verbatim>\<open>Object.keys\<close>.
\<close>

datatype jsvalue =
    Undefined
  | Null
  | JBool bool
  | JNum real
  | JStr string
  | JFun
  | JArr "jsvalue list"
  | JObj "(string \<times> jsvalue) list"

text \<open>\<^verbatim>\<open>defaultOptions\<close> of \<^verbatim>\<open>gc.create\<close>.\<close>

definition defaultOptions :: "(string \<times> jsvalue) list" where
  "defaultOptions =
     [(''bounds'', Undefined),
      (''states'', Undefined),
      (''include'', JStr ''gnis postal state''),
      (''controlClassName'', JStr []),
      (''className'', JStr []),
      (''maxSuggestions'', JNum 50),
      (''menuClassName'', JStr []),
      (''menuHeight'', JStr ''40rem''),
      (''minCharacters'', JNum 2),
      (''placeholder'', JStr ''Find a place''),
      (''size'', JStr ''md''),
      (''title'', JStr []),
      (''width'', Undefined),
      (''onSelect'', Undefined),
      (''onSuggest'', Undefined)]"

text \<open>
  The options that the resolution of a query reads, at the types the documentation of
  \<^verbatim>\<open>gc.create\<close> gives them: \<^verbatim>\<open>bounds\<close> flattened to
  \<^verbatim>\<open>[latMin, lonMin, latMax, lonMax]\<close> (\<open>None\<close> when the option is undefined),
  \<^verbatim>\<open>states\<close> (\<open>None\<close> when undefined), \<^verbatim>\<open>include\<close> and \<^verbatim>\<open>minCharacters\<close>.
\<close>

record options =
  opt_bounds :: "(real \<times> real \<times> real \<times> real) option"
  opt_states :: "string option"
  opt_include :: string
  opt_minCharacters :: real

text \<open>\<^verbatim>\<open>Array.prototype.flat\<close>, one level deep.\<close>

definition flat :: "jsvalue list \<Rightarrow> jsvalue list" where
  "flat xs = concat (map (\<lambda>v. case v of JArr ys \<Rightarrow> ys | _ \<Rightarrow> [v]) xs)"

text \<open>
  \<^verbatim>\<open>(control.options.bounds || [...]).flat()\<close> and the four numbers taken from it; \<open>None\<close>
  stands for a \<^verbatim>\<open>bounds\<close> that is undefined (or falsy), where the source takes the whole
  world. A \<^verbatim>\<open>states\<close> of \<^verbatim>\<open>null\<close> behaves as the empty string does (falsy, and not
  \<^verbatim>\<open>undefined\<close>). An option of another type than the documented one (bounds that do not
  flatten to four numbers, states or include that are not strings, a minimum that is not a
  number) is outside this view.
\<close>

definition read_bounds :: "jsvalue option \<Rightarrow> (real \<times> real \<times> real \<times> real) option" where
  "read_bounds v =
     (case v of
        Some (JArr xs) \<Rightarrow>
          (case flat xs of
             JNum a # JNum b # JNum c # JNum d # _ \<Rightarrow> Some (a, b, c, d)
           | _ \<Rightarrow> None)
      | _ \<Rightarrow> None)"

definition read_options :: "(string \<rightharpoonup> jsvalue) \<Rightarrow> options" where
  "read_options m =
     \<lparr>opt_bounds = read_bounds (m ''bounds''),
      opt_states = (case m ''states'' of Some (JStr s) \<Rightarrow> Some s | Some Null \<Rightarrow> Some [] | _ \<Rightarrow> None),
      opt_include = (case m ''include'' of Some (JStr s) \<Rightarrow> s | _ \<Rightarrow> []),
      opt_minCharacters = (case m ''minCharacters'' of Some (JNum n) \<Rightarrow> n | _ \<Rightarrow> 0)\<rparr>"

text \<open>\<^verbatim>\<open>gc._config\<close>.\<close>

definition minScore :: real where
  "minScore = 80"

definition nCoordDecimals :: nat where
  "nCoordDecimals = 6"

definition roundCoord :: "real \<Rightarrow> real" where
  "roundCoord x = toFixed_number nCoordDecimals x"

text \<open>
  The object \<^verbatim>\<open>parseInput\<close> returns. \<open>in_states\<close> is \<open>None\<close> where the source leaves
  \<^verbatim>\<open>input.states\<close> undefined, \<open>in_latlon\<close> where it leaves \<^verbatim>\<open>input.latlon\<close> undefined.
\<close>

record input =
  in_term :: string
  in_states :: "string option"
  in_latlon :: "(real \<times> real) option"
  in_cacheKey :: string

subsection \<open>The search term\<close>

text \<open>The characters the regular expression \<^verbatim>\<open>[^A-Z0-9\*\-\.]\<close> leaves in place.\<close>

definition term_char :: "char \<Rightarrow> bool" where
  "term_char c = (is_upper c \<or> is_digit c \<or> c = CHR ''*'' \<or> c = CHR ''-'' \<or> c = CHR ''.'')"

text \<open>\<^verbatim>\<open>.replace(/^ST /u, 'SAINT ')\<close>.\<close>

definition expand_saint :: "string \<Rightarrow> string" where
  "expand_saint s = (if take 3 s = ''ST '' then ''SAINT '' @ drop 3 s else s)"

text \<open>
  The chain of \<^verbatim>\<open>parseInput\<close> on the text of the input element, in the order of the
  source: \<^verbatim>\<open>toUpperCase\<close>, the character class, the runs of white space, \<^verbatim>\<open>ST\<close>, and
  \<^verbatim>\<open>trim\<close> last.
\<close>

definition parse_term :: "string \<Rightarrow> string" where
  "parse_term v =
     trim (expand_saint (collapse_spaces '' ''
       (map (\<lambda>c. if term_char c then c else CHR '' '') (toUpperCase v))))"

subsection \<open>Coordinates\<close>

definition NS :: "string \<Rightarrow> jsnum" where
  "NS k = (if k = ''N'' then Some 1 else if k = ''S'' then Some (- 1) else NaN)"

definition EW :: "string \<Rightarrow> jsnum" where
  "EW k = (if k = ''E'' then Some 1 else if k = ''W'' then Some (- 1) else NaN)"

definition dms2dec :: "string \<Rightarrow> string \<Rightarrow> string \<Rightarrow> jsnum" where
  "dms2dec d m s =
     num_mul (Math_sign (Number d))
       (num_add (num_add (Number d) (num_over (Number m) 60)) (num_over (Number s) 3600))"

text \<open>
  The part of \<^verbatim>\<open>parseInput\<close> that reads \<^verbatim>\<open>parts\<close> as a latitude and a longitude. A
  property that is missing from \<^verbatim>\<open>NS\<close> or \<^verbatim>\<open>EW\<close> is \<^verbatim>\<open>undefined\<close>, and its product
  with a number is \<open>NaN\<close>.
\<close>

definition parse_latlon :: "string list \<Rightarrow> (real \<times> real) option" where
  "parse_latlon parts =
     (let latlon =
        (if length parts = 8 then
           (num_mul (NS (parts ! 3)) (dms2dec (parts ! 0) (parts ! 1) (parts ! 2)),
            num_mul (EW (parts ! 7)) (dms2dec (parts ! 4) (parts ! 5) (parts ! 6)))
         else if length parts = 6 then
           (dms2dec (parts ! 0) (parts ! 1) (parts ! 2),
            num_neg (Math_abs (dms2dec (parts ! 3) (parts ! 4) (parts ! 5))))
         else if length parts = 4 then
           (num_mul (NS (parts ! 1)) (Number (parts ! 0)),
            num_mul (EW (parts ! 3)) (Number (parts ! 2)))
         else if length parts = 2 then
           (Number (parts ! 0), num_neg (Math_abs (Number (parts ! 1))))
         else (NaN, NaN))
      in case latlon of
           (Some lat, Some lon) \<Rightarrow> Some (roundCoord lat, roundCoord lon)
         | _ \<Rightarrow> None)"

subsection \<open>States and the cache key\<close>

definition lower48 :: string where
  "lower48 = ''AL AZ AR CA CO CT DE FL GA ID IL IN IA KS KY LA ME MD MA MI MN MS MO MT NE NV NH NJ NM NY NC ND OH OK OR PA RI SC SD TN TX UT VT VA WA WV WI WY''"

text \<open>
  \<^verbatim>\<open>(control.options.states || 'ALL').toUpperCase()\<close>, the four shortcuts, and the runs of
  white space turned into commas.
\<close>

definition option_states :: "options \<Rightarrow> string" where
  "option_states opts =
     (let s0 = toUpperCase (case opt_states opts of None \<Rightarrow> ''ALL'' | Some s \<Rightarrow> if s = [] then ''ALL'' else s);
          s1 = (if s0 = ''48'' then lower48 @ '' DC'' else s0);
          s2 = (if s1 = ''50'' then lower48 @ '' AK HI DC'' else s1);
          s3 = (if s2 = ''USGS'' then lower48 @ '' AK HI DC GU PR VI'' else s2);
          s4 = (if s3 = ''ALL'' then lower48 @ '' AK HI DC GU PR VI AS FM MH MP PW UM'' else s3)
      in collapse_spaces '','' s4)"

text \<open>The string a template or \<^verbatim>\<open>+\<close> makes of a value that may be undefined.\<close>

definition show_undefined :: "string option \<Rightarrow> string" where
  "show_undefined v = (case v of None \<Rightarrow> ''undefined'' | Some s \<Rightarrow> s)"

definition parseInput :: "options \<Rightarrow> string \<Rightarrow> input" where
  "parseInput opts v =
     (let term0 = parse_term v;
          parts = split_on CHR '' '' term0;
          states0 = option_states opts;
          lastPart = last parts;
          found = (length parts > 1 \<and> lastPart \<in> set (split_on CHR '','' states0));
          term1 = (if found then join '' '' (butlast parts) else term0);
          states1 = (if found then Some lastPart
                     else if opt_states opts = None then None
                     else Some states0)
      in \<lparr>in_term = term1, in_states = states1, in_latlon = parse_latlon parts,
          in_cacheKey = term1 @ ''|'' @ show_undefined states1\<rparr>)"

section \<open>geocoder.js: the candidate validator\<close>

text \<open>
  The property object \<^verbatim>\<open>p\<close> that \<^verbatim>\<open>getFeature\<close> checks and rewrites in place, as the two
  services send it: a text property is a string, and the empty string stands for a missing
  one (\<^verbatim>\<open>value || ''\<close> makes them the same; only the default label of a record without a
  name, which is rejected, would tell them apart); a numeric property is a number, \<open>None\<close>
  when it is missing (\<^verbatim>\<open>parseFloat\<close> of \<^verbatim>\<open>undefined\<close> is \<open>NaN\<close>) and, in the output, where
  the source stores \<open>NaN\<close> or \<^verbatim>\<open>null\<close>. \<open>Bounds\<close> is the property that \<^verbatim>\<open>getFeature\<close> adds.
\<close>

record properties =
  County :: string
  GnisId :: jsnum
  Label :: string
  Latitude :: jsnum
  LatitudeMax :: jsnum
  LatitudeMin :: jsnum
  Longitude :: jsnum
  LongitudeMax :: jsnum
  LongitudeMin :: jsnum
  Name :: string
  Score :: jsnum
  Source :: string
  State :: string
  Type :: string
  Bounds :: "((jsnum \<times> jsnum) \<times> (jsnum \<times> jsnum)) option"

text \<open>A GeoJSON point feature: \<^verbatim>\<open>geometry.coordinates\<close> and \<^verbatim>\<open>properties\<close>.\<close>

record feature =
  coordinates :: "jsnum \<times> jsnum"
  properties :: properties

text \<open>\<^verbatim>\<open>s.replace(pat, rep)\<close> with a string pattern: the first occurrence only.\<close>

fun replace_first :: "string \<Rightarrow> string \<Rightarrow> string \<Rightarrow> string" where
  "replace_first pat rep [] = (if pat = [] then rep else [])"
| "replace_first pat rep (c # cs) =
     (if take (length pat) (c # cs) = pat then rep @ drop (length pat) (c # cs)
      else c # replace_first pat rep cs)"

text \<open>
  The body of the \<^verbatim>\<open>forEach\<close> of \<^verbatim>\<open>getFeature\<close> for one row of its table. \<open>v\<close> is the
  property after its conversion (\<^verbatim>\<open>trim\<close> of a string, \<^verbatim>\<open>parseFloat\<close> of a number),
  \<open>missing\<close> says that it is \<^verbatim>\<open>''\<close> or \<open>NaN\<close>, \<open>dflt\<close> is the \<^verbatim>\<open>default\<close> of the row
  (\<open>None\<close> for a required property), \<open>validate\<close> and \<open>format\<close> are the row's functions
  (always true and the identity where the row has none). The result is the row's
  contribution to \<^verbatim>\<open>isValid\<close> and the value stored in \<^verbatim>\<open>p\<close>.
\<close>

definition check_property :: "'a \<Rightarrow> bool \<Rightarrow> 'a option \<Rightarrow> ('a \<Rightarrow> bool) \<Rightarrow> ('a \<Rightarrow> 'a) \<Rightarrow> bool \<times> 'a" where
  "check_property v missing dflt validate format =
     (let v1 = (if missing then (case dflt of Some d \<Rightarrow> d | None \<Rightarrow> v) else v)
      in ((missing \<longrightarrow> dflt \<noteq> None) \<and> validate v1, format v1))"

definition string_property :: "string \<Rightarrow> string option \<Rightarrow> (string \<Rightarrow> bool) \<Rightarrow> (string \<Rightarrow> string) \<Rightarrow> bool \<times> string" where
  "string_property raw dflt validate format =
     check_property (trim raw) (trim raw = []) dflt validate format"

definition number_property :: "jsnum \<Rightarrow> jsnum option \<Rightarrow> (jsnum \<Rightarrow> bool) \<Rightarrow> (jsnum \<Rightarrow> jsnum) \<Rightarrow> bool \<times> jsnum" where
  "number_property raw dflt validate format =
     check_property raw (raw = NaN) dflt validate format"

text \<open>A comparison with \<open>NaN\<close> is false.\<close>

definition num_between :: "real \<Rightarrow> real \<Rightarrow> jsnum \<Rightarrow> bool" where
  "num_between lo hi v = (case v of Some x \<Rightarrow> lo \<le> x \<and> x \<le> hi | None \<Rightarrow> False)"

definition num_at_least :: "real \<Rightarrow> jsnum \<Rightarrow> bool" where
  "num_at_least lo v = (case v of Some x \<Rightarrow> lo \<le> x | None \<Rightarrow> False)"

text \<open>A row of the table without a \<^verbatim>\<open>validate\<close>.\<close>

definition no_validate :: "'a \<Rightarrow> bool" where
  "no_validate v = True"

definition active_bounds :: "options \<Rightarrow> real \<times> real \<times> real \<times> real" where
  "active_bounds opts = (case opt_bounds opts of Some b \<Rightarrow> b | None \<Rightarrow> (- 90, - 180, 90, 180))"

text \<open>
  The \<^verbatim>\<open>validate\<close> of the row \<^verbatim>\<open>State\<close>:
  \<^verbatim>\<open>s => !input.states || input.states.split(',').includes(s)\<close>.
\<close>

definition state_allowed :: "input \<Rightarrow> string \<Rightarrow> bool" where
  "state_allowed inp s =
     (case in_states inp of
        None \<Rightarrow> True
      | Some st \<Rightarrow> st = [] \<or> s \<in> set (split_on CHR '','' st))"

text \<open>
  The table of \<^verbatim>\<open>getFeature\<close> and its \<^verbatim>\<open>forEach\<close>: \<^verbatim>\<open>isValid\<close> at the end, and the
  property object as the rows have rewritten it. A \<^verbatim>\<open>default\<close> is computed from the
  object as it was given, before any row is rewritten.
\<close>

definition check_properties :: "options \<Rightarrow> input \<Rightarrow> properties \<Rightarrow> bool \<times> properties" where
  "check_properties opts inp p =
     (let label = replace_first '' ( )'' []
            (Name p @ '' ('' @ join '' '' (filter (\<lambda>s. s \<noteq> []) [County p, State p]) @ '')'');
          dBounds = 1 / 10 ^ nCoordDecimals;
          round = map_option roundCoord;
          (latMin, lonMin, latMax, lonMax) = active_bounds opts;
          (ok1, county) = string_property (County p) (Some []) no_validate id;
          (ok2, gnisId) = number_property (GnisId p) (Some None) no_validate id;
          (ok3, label') = string_property (Label p) (Some label) no_validate id;
          (ok4, latitude) = number_property (Latitude p) None (num_between latMin latMax) round;
          (ok5, latitudeMax) = number_property (LatitudeMax p) (Some (num_add (Latitude p) (Some dBounds))) no_validate round;
          (ok6, latitudeMin) = number_property (LatitudeMin p) (Some (num_add (Latitude p) (Some (- dBounds)))) no_validate round;
          (ok7, longitude) = number_property (Longitude p) None (num_between lonMin lonMax) round;
          (ok8, longitudeMax) = number_property (LongitudeMax p) (Some (num_add (Longitude p) (Some dBounds))) no_validate round;
          (ok9, longitudeMin) = number_property (LongitudeMin p) (Some (num_add (Longitude p) (Some (- dBounds)))) no_validate round;
          (ok10, name) = string_property (Name p) None no_validate id;
          (ok11, score) = number_property (Score p) (Some (Some 100)) (num_at_least minScore) (map_option Math_round);
          (ok12, source) = string_property (Source p) None no_validate id;
          (ok13, state) = string_property (State p) (Some []) (state_allowed inp) toUpperCase;
          (ok14, type) = string_property (Type p) None no_validate id
      in (ok1 \<and> ok2 \<and> ok3 \<and> ok4 \<and> ok5 \<and> ok6 \<and> ok7 \<and> ok8 \<and> ok9 \<and> ok10 \<and> ok11 \<and> ok12 \<and> ok13 \<and> ok14,
          p\<lparr>County := county, GnisId := gnisId, Label := label', Latitude := latitude,
            LatitudeMax := latitudeMax, LatitudeMin := latitudeMin, Longitude := longitude,
            LongitudeMax := longitudeMax, LongitudeMin := longitudeMin, Name := name,
            Score := score, Source := source, State := state, Type := type\<rparr>))"

text \<open>\<^verbatim>\<open>gc._locate.getFeature\<close>: no feature when a row failed, else the point feature.\<close>

definition getFeature :: "options \<Rightarrow> input \<Rightarrow> properties \<Rightarrow> feature option" where
  "getFeature opts inp p =
     (let (isValid, p') = check_properties opts inp p
      in if \<not> isValid then None
         else Some
           \<lparr>coordinates = (Longitude p', Latitude p'),
            properties =
              p'\<lparr>Bounds := Some ((LatitudeMin p', LongitudeMin p'), (LatitudeMax p', LongitudeMax p'))\<rparr>\<rparr>)"

section \<open>geocoder.js: the control and one resolution of a query\<close>

text \<open>
  What a resolution does to the page and to the network is recorded, in order, in the
  \<open>events\<close> of the control: a call of \<^verbatim>\<open>control._updateMenu\<close> with its argument (the only
  place that triggers \<^verbatim>\<open>onSuggest\<close>), a request to the primary service with the term and
  the states it sends, and a request to the secondary service with its term.
\<close>

datatype event =
    UpdateMenu "string option"
  | Fetch1 string "string option"
  | Fetch2 string

text \<open>
  The control object: \<^verbatim>\<open>options\<close> (undefined until the first \<^verbatim>\<open>setOptions\<close>), the text of
  the input element, the classes \<^verbatim>\<open>gc-hidden\<close> and \<^verbatim>\<open>gc-busy\<close>, the \<^verbatim>\<open>disabled\<close> flag of the
  input element, \<^verbatim>\<open>_cache\<close>, \<^verbatim>\<open>_suggestions.features\<close> and \<^verbatim>\<open>_selected\<close>.
\<close>

record control =
  ctl_options :: "(string \<times> jsvalue) list option"
  input_value :: string
  hidden :: bool
  disabled :: bool
  busy :: bool
  cache :: "string \<rightharpoonup> feature list"
  suggestions :: "feature list"
  selected :: "feature option"
  events :: "event list"

definition options_of :: "control \<Rightarrow> options" where
  "options_of c =
     read_options (map_of (case ctl_options c of None \<Rightarrow> defaultOptions | Some obj \<Rightarrow> obj))"

subsection \<open>setOptions\<close>

datatype error = TypeError

text \<open>\<^verbatim>\<open>typeof v === 'object'\<close>.\<close>

definition typeof_object :: "jsvalue \<Rightarrow> bool" where
  "typeof_object v = (case v of Null \<Rightarrow> True | JArr _ \<Rightarrow> True | JObj _ \<Rightarrow> True | _ \<Rightarrow> False)"

text \<open>The decimal digits of a whole number that is not negative.\<close>

function show_digits :: "int \<Rightarrow> string" where
  "show_digits n =
     (if n < 10 then [char_of (48 + n)] else show_digits (n div 10) @ [char_of (48 + n mod 10)])"
  by pat_completeness auto
termination
  by (relation "measure nat") auto

text \<open>
  The string of a number that has at most six decimals and a magnitude below \<open>10\<^sup>2\<^sup>1\<close>, as
  \<^verbatim>\<open>join\<close> and a template write it: the digits without trailing zeros.
\<close>

definition show_number :: "real \<Rightarrow> string" where
  "show_number x =
     (let n = \<lfloor>\<bar>x\<bar> * 10 ^ 6 + 1 / 2\<rfloor>;
          ds = show_digits (n mod 10 ^ 6);
          fs = rev (dropWhile (\<lambda>c. c = CHR ''0'') (rev (replicate (6 - length ds) CHR ''0'' @ ds)))
      in (if x < 0 \<and> n \<noteq> 0 then ''-'' else []) @ show_digits (n div 10 ^ 6) @
         (if fs = [] then [] else ''.'' @ fs))"

text \<open>
  The string of a value, which is the property name that \<^verbatim>\<open>{[args[0]]: args[1]}\<close> makes
  of its key. An array is the strings of its elements joined by commas, with nothing for
  \<^verbatim>\<open>null\<close> and \<^verbatim>\<open>undefined\<close>. The string of a function is its source text, which is not
  modelled: like the string of a number or of an object it holds characters that no name
  of an option has.
\<close>

fun js_string :: "jsvalue \<Rightarrow> string" where
  "js_string (JStr s) = s"
| "js_string Undefined = ''undefined''"
| "js_string Null = ''null''"
| "js_string (JBool b) = (if b then ''true'' else ''false'')"
| "js_string (JNum x) = show_number x"
| "js_string JFun = ''function () {}''"
| "js_string (JArr xs) =
     join '','' (map (\<lambda>v. if v = Undefined \<or> v = Null then [] else js_string v) xs)"
| "js_string (JObj ps) = ''[object Object]''"

definition property_key :: "jsvalue \<Rightarrow> string" where
  "property_key v = js_string v"

text \<open>\<^verbatim>\<open>Object.keys\<close> of a value whose \<^verbatim>\<open>typeof\<close> is \<^verbatim>\<open>'object'\<close>, with the values.\<close>

definition own_properties :: "jsvalue \<Rightarrow> error + (string \<times> jsvalue) list" where
  "own_properties v =
     (case v of
        JObj ps \<Rightarrow> Inr ps
      | JArr xs \<Rightarrow> Inr (zip (map (\<lambda>i. show_digits (int i)) [0 ..< length xs]) xs)
      | _ \<Rightarrow> Inl TypeError)"

text \<open>\<^verbatim>\<open>Object.assign\<close>: a property of the source overwrites or extends the target.\<close>

fun assign_property :: "(string \<times> jsvalue) list \<Rightarrow> string \<times> jsvalue \<Rightarrow> (string \<times> jsvalue) list" where
  "assign_property [] kv = [kv]"
| "assign_property ((k', v') # ps) kv =
     (if k' = fst kv then (k', snd kv) # ps else (k', v') # assign_property ps kv)"

definition Object_assign :: "(string \<times> jsvalue) list \<Rightarrow> (string \<times> jsvalue) list \<Rightarrow> (string \<times> jsvalue) list" where
  "Object_assign target source = foldl assign_property target source"

text \<open>
  The first statement of \<^verbatim>\<open>control.setOptions(...args)\<close>: the object of options, or the
  single option of a (name, value) pair.
\<close>

definition newOptions :: "jsvalue list \<Rightarrow> jsvalue" where
  "newOptions args =
     (if length args \<le> 1 then (case args of [] \<Rightarrow> Undefined | a # _ \<Rightarrow> a)
      else JObj [(property_key (args ! 0), args ! 1)])"

text \<open>
  \<^verbatim>\<open>control.setOptions(...args)\<close>. A value that is not an object is refused with a warning
  and the control is returned as it is; \<^verbatim>\<open>Object.keys(null)\<close> throws. The assignments to
  the classes, the width, the placeholder and the title of the page elements change nothing
  that is modelled here.
\<close>

definition setOptions :: "jsvalue list \<Rightarrow> control \<Rightarrow> error + control" where
  "setOptions args c =
     (if \<not> typeof_object (newOptions args) then Inr c
      else
        (case own_properties (newOptions args) of
           Inl e \<Rightarrow> Inl e
         | Inr ps \<Rightarrow>
             (let recognized = filter (\<lambda>(name, _). name \<in> set (map fst defaultOptions)) ps;
                  target = (case ctl_options c of None \<Rightarrow> defaultOptions | Some obj \<Rightarrow> obj)
              in Inr (c\<lparr>ctl_options := Some (Object_assign target recognized),
                        cache := Map.empty,
                        suggestions := [],
                        selected := None\<rparr>))))"

subsection \<open>The menu\<close>

text \<open>
  \<^verbatim>\<open>control._updateMenu(term)\<close>, for a control that is not destroyed. The menu closes, and
  the suggestions are cleared, when there is no term, no suggestion, or the control is
  hidden or disabled. The content of the menu itself is not modelled.
\<close>

definition updateMenu :: "string option \<Rightarrow> control \<Rightarrow> control" where
  "updateMenu t c =
     (let c1 = c\<lparr>events := events c @ [UpdateMenu t]\<rparr>
      in if t = None \<or> t = Some [] \<or> suggestions c = [] \<or> hidden c \<or> disabled c
         then c1\<lparr>suggestions := []\<rparr>
         else c1)"

text \<open>
  The \<^verbatim>\<open>click\<close> listener of the menu, for the item with the index \<open>i\<close>: the suggestion
  becomes the selection, and the input is cleared. (An index without a suggestion reads
  \<^verbatim>\<open>undefined\<close>.)
\<close>

definition click_item :: "nat \<Rightarrow> control \<Rightarrow> control" where
  "click_item i c =
     c\<lparr>selected := (if i < length (suggestions c) then Some (suggestions c ! i) else None),
       input_value := []\<rparr>"

subsection \<open>The two services\<close>

text \<open>
  What the primary service answers: a failure (the request is rejected or aborted, or the
  body is not JSON), an object with an \<^verbatim>\<open>error\<close>, a value that is not an array, or an
  array of property objects.
\<close>

datatype response1 =
    Failed1
  | ServiceError
  | NotArray
  | Records "properties list"

text \<open>The attributes of a candidate of the secondary service (the \<^verbatim>\<open>outFields\<close>).\<close>

record attributes =
  attr_Type :: string
  attr_Match_addr :: string
  attr_ShortLabel :: string
  attr_Subregion :: string
  attr_RegionAbbr :: string
  attr_Y :: jsnum
  attr_X :: jsnum
  attr_Ymin :: jsnum
  attr_Ymax :: jsnum
  attr_Xmin :: jsnum
  attr_Xmax :: jsnum
  attr_Score :: jsnum
  attr_Loc_name :: string

datatype response2 =
    Failed2
  | NoCandidates
  | Candidates "attributes list"

text \<open>
  What happens to one resolution from outside: the answer of each service, and whether
  \<^verbatim>\<open>fetchAbortController.signal.aborted\<close> holds when the promise of the primary request
  settles (\<open>aborted1\<close>) and when that of the secondary request settles (\<open>aborted2\<close>). The
  signal is aborted by the next resolution of the control, by \<^verbatim>\<open>destroy\<close>, and by the
  timeout.
\<close>

record env =
  primary :: response1
  aborted1 :: bool
  secondary :: response2
  aborted2 :: bool

subsection \<open>gc._locate\<close>

text \<open>The helper \<^verbatim>\<open>endLocate\<close>; \<open>aborted\<close> is the state of the signal when it runs.\<close>

definition endLocate :: "input \<Rightarrow> bool \<Rightarrow> bool \<Rightarrow> control \<Rightarrow> control" where
  "endLocate inp aborted cache_it c =
     (let c1 = c\<lparr>busy := False\<rparr>
      in if \<not> aborted then
           updateMenu (Some (in_term inp))
             (if cache_it then c1\<lparr>cache := (cache c1)(in_cacheKey inp \<mapsto> suggestions c1)\<rparr> else c1)
         else c1)"

text \<open>The property object of the coordinate that \<^verbatim>\<open>parseInput\<close> found.\<close>

definition latlon_properties :: "real \<times> real \<Rightarrow> properties" where
  "latlon_properties ll =
     (let text = ''Coordinate ('' @ show_number (fst ll) @ '', '' @ show_number (snd ll) @ '')''
      in \<lparr>County = [], GnisId = None, Label = text, Latitude = Some (fst ll),
          LatitudeMax = None, LatitudeMin = None, Longitude = Some (snd ll),
          LongitudeMax = None, LongitudeMin = None, Name = text, Score = None,
          Source = ''latlon'', State = [], Type = ''Latitude-Longitude Coordinate'',
          Bounds = None\<rparr>)"

text \<open>The property object made of a candidate of the secondary service.\<close>

definition candidate_properties :: "attributes \<Rightarrow> properties" where
  "candidate_properties attr =
     \<lparr>County = attr_Subregion attr, GnisId = None, Label = attr_Match_addr attr,
      Latitude = attr_Y attr, LatitudeMax = attr_Ymax attr, LatitudeMin = attr_Ymin attr,
      Longitude = attr_X attr, LongitudeMax = attr_Xmax attr, LongitudeMin = attr_Xmin attr,
      Name = (if attr_Type attr \<noteq> [] then attr_ShortLabel attr else attr_Match_addr attr),
      Score = attr_Score attr, Source = ''esri-'' @ toLowerCase (attr_Loc_name attr),
      State = attr_RegionAbbr attr,
      Type = (if attr_Type attr \<noteq> [] then attr_Type attr else ''Addresses and Other Suggestions''),
      Bounds = None\<rparr>"

definition duplicate_of :: "feature \<Rightarrow> feature \<Rightarrow> bool" where
  "duplicate_of f g =
     (let p1 = properties g; p2 = properties f
      in Type p1 = Type p2 \<and> Name p1 = Name p2 \<and> County p1 = County p2 \<and> State p1 = State p2)"

text \<open>The body of \<^verbatim>\<open>json.candidates.forEach\<close>.\<close>

definition add_candidate :: "options \<Rightarrow> input \<Rightarrow> feature list \<Rightarrow> attributes \<Rightarrow> feature list" where
  "add_candidate opts inp features attr =
     (if attr_Type attr = ''Country'' then features
      else if attr_RegionAbbr attr = [] then features
      else (case getFeature opts inp (candidate_properties attr) of
              None \<Rightarrow> features
            | Some f \<Rightarrow> if list_ex (duplicate_of f) features then features else features @ [f]))"

text \<open>
  The comparison function of \<^verbatim>\<open>features.sort\<close>: by type, then state, then county. It
  never answers 0, so the order of two features equal in all three is the engine's; here
  the sort is an insertion sort.
\<close>

definition sorts_after :: "feature \<Rightarrow> feature \<Rightarrow> bool" where
  "sorts_after a b =
     (let p = properties a; q = properties b
      in if Type p > Type q then True else if Type p < Type q then False
         else if State p > State q then True else if State p < State q then False
         else County p > County q)"

fun insert_feature :: "feature \<Rightarrow> feature list \<Rightarrow> feature list" where
  "insert_feature a [] = [a]"
| "insert_feature a (b # bs) = (if sorts_after a b then b # insert_feature a bs else a # b # bs)"

definition sort_features :: "feature list \<Rightarrow> feature list" where
  "sort_features fs = foldr insert_feature fs []"

text \<open>
  The two handlers of the secondary request: \<^verbatim>\<open>then\<close> for an answer with candidates,
  \<^verbatim>\<open>catch\<close> for everything else.
\<close>

definition locate_secondary :: "options \<Rightarrow> input \<Rightarrow> env \<Rightarrow> control \<Rightarrow> control" where
  "locate_secondary opts inp e c =
     (case secondary e of
        Candidates (a # as) \<Rightarrow>
          endLocate inp (aborted2 e) True
            (c\<lparr>suggestions := sort_features (foldl (add_candidate opts inp) [] (a # as))\<rparr>)
      | _ \<Rightarrow> endLocate inp (aborted2 e) False c)"

text \<open>
  The two handlers of the primary request: \<^verbatim>\<open>then\<close> for a non-empty array, \<^verbatim>\<open>catch\<close> for
  everything else (an empty array throws \<^verbatim>\<open>'NO_API_SUGGESTIONS'\<close>).
\<close>

definition locate_primary :: "options \<Rightarrow> input \<Rightarrow> env \<Rightarrow> control \<Rightarrow> control" where
  "locate_primary opts inp e c =
     (case primary e of
        Records (p # ps) \<Rightarrow>
          endLocate inp (aborted1 e) True
            (c\<lparr>suggestions := List.map_filter (getFeature opts inp) (p # ps)\<rparr>)
      | _ \<Rightarrow>
          if aborted1 e \<or> \<not> str_includes (toLowerCase (opt_include opts)) ''gnis''
          then endLocate inp (aborted1 e) False c
          else locate_secondary opts inp e (c\<lparr>events := events c @ [Fetch2 (in_term inp)]\<rparr>))"

text \<open>
  \<^verbatim>\<open>gc._locate(control)\<close>, run to the end of the resolution it starts: the part that runs
  at once, and the handlers of the promises, which run when the services answer as \<open>e\<close>
  says.
\<close>

definition locate_fetch :: "options \<Rightarrow> input \<Rightarrow> env \<Rightarrow> control \<Rightarrow> control" where
  "locate_fetch opts inp e c =
     locate_primary opts inp e
       (c\<lparr>busy := True, suggestions := [],
          events := events c @ [Fetch1 (in_term inp) (in_states inp)]\<rparr>)"

definition locate :: "env \<Rightarrow> control \<Rightarrow> control" where
  "locate e c =
     (let opts = options_of c;
          inp = parseInput opts (input_value c)
      in if real (length (trim (input_value c))) < opt_minCharacters opts then updateMenu None c
         else (case cache c (in_cacheKey inp) of
                 Some fs \<Rightarrow> updateMenu (Some (in_term inp)) (c\<lparr>suggestions := fs\<rparr>)
               | None \<Rightarrow>
                   (case in_latlon inp of
                      None \<Rightarrow> locate_fetch opts inp e c
                    | Some ll \<Rightarrow>
                        (case getFeature opts inp (latlon_properties ll) of
                           Some f \<Rightarrow> updateMenu (Some (in_term inp)) (c\<lparr>suggestions := [f]\<rparr>)
                         | None \<Rightarrow> locate_fetch opts inp e c))))"

section \<open>search_api.js: the suggestion menu of the older widget\<close>

text \<open>
  The options of \<^verbatim>\<open>search_api._opt_default\<close> that the \<^verbatim>\<open>keyup\<close> handler of the menu reads,
  as \<^verbatim>\<open>setOpts\<close> leaves them: the four bounds, \<^verbatim>\<open>search_states\<close> in upper case without
  white space, and \<^verbatim>\<open>menu_min_char\<close>, a whole number of characters.
\<close>

record sa_opts =
  lat_min :: real
  lat_max :: real
  lon_min :: real
  lon_max :: real
  search_states :: string
  menu_min_char :: nat

definition all_states :: "string list" where
  "all_states =
     [''AK'', ''AL'', ''AR'', ''AZ'', ''CA'', ''CO'', ''CT'', ''DC'', ''DE'', ''FL'', ''GA'', ''HI'',
      ''IA'', ''ID'', ''IL'', ''IN'', ''KS'', ''KY'', ''LA'', ''MA'', ''MD'', ''ME'', ''MI'', ''MN'',
      ''MO'', ''MS'', ''MT'', ''NC'', ''ND'', ''NE'', ''NH'', ''NJ'', ''NM'', ''NV'', ''NY'', ''OH'',
      ''OK'', ''OR'', ''PA'', ''PR'', ''RI'', ''SC'', ''SD'', ''TN'', ''TX'', ''UT'', ''VA'', ''VI'',
      ''VT'', ''WA'', ''WI'', ''WV'', ''WY'', ''N/A'']"

text \<open>
  The characters of the class of special characters that the term loses: the slash, the
  backslash, the caret, the dollar, the plus, the question mark, the parentheses, the bar,
  the brackets, the braces and the percent sign.
\<close>

definition special_char :: "char \<Rightarrow> bool" where
  "special_char c =
     (c \<in> set [CHR 0x2F, CHR 0x5C, CHR 0x5E, CHR 0x24, CHR 0x2B, CHR 0x3F, CHR 0x28, CHR 0x29,
                CHR 0x7C, CHR 0x5B, CHR 0x5D, CHR 0x7B, CHR 0x7D, CHR 0x25])"

text \<open>
  \<^verbatim>\<open>o._getSearchTermStates\<close> on the text of the text box: the filtered term and the states
  to search.
\<close>

definition filter_term :: "string \<Rightarrow> string" where
  "filter_term val =
     expand_saint (collapse_spaces '' ''
       (replace_runs (\<lambda>c. c = CHR '','') '' '' False
         (filter (\<lambda>c. \<not> special_char c)
           (filter (\<lambda>c. \<not> c < CHR 0x20)
             (filter (\<lambda>c. c < CHR 0x80) (toUpperCase (trim val)))))))"

definition getSearchTermStates :: "sa_opts \<Rightarrow> string \<Rightarrow> string \<times> string" where
  "getSearchTermStates opts val =
     (let term0 = filter_term val;
          parts = split_on CHR '' '' term0;
          found = (length parts \<ge> 2 \<and> last parts \<in> set all_states);
          states = (if found then last parts else []);
          term1 = (if found then join '' '' (butlast parts) else term0)
      in if states \<noteq> [] \<and> search_states opts = ''ALL'' then (term1, states)
         else if states \<noteq> [] \<and> search_states opts \<noteq> ''ALL'' then
           (if states \<notin> set (split_on CHR '','' (search_states opts))
            then (term1 @ '' '' @ states, search_states opts)
            else (term1, states))
         else (term1, search_states opts))"

text \<open>
  What one \<^verbatim>\<open>keyup\<close> event ends in: nothing (a navigation key), the menu closed, the menu
  updated with the one item of a coordinate, the menu updated with a list of items, or a
  new request to the data service scheduled with a term and its states. The items of the
  service are of any type \<open>'a\<close>.
\<close>

datatype 'a menu_action =
    KeyIgnored
  | MenuClosed
  | ShowCoordinate string real real
  | ShowData string "'a list"
  | NewRequest string string

text \<open>
  The loop \<^verbatim>\<open>for (var n = ...length-1; n > o.opts.menu_min_char; n--)\<close>, from \<open>n\<close>
  downwards: true when it finds a shorter request that is cached with no results.
\<close>

fun shorter_had_no_results :: "nat \<Rightarrow> (string \<rightharpoonup> 'a list) \<Rightarrow> string \<Rightarrow> string \<Rightarrow> nat \<Rightarrow> bool" where
  "shorter_had_no_results min_char menu_cache term_cache states 0 = False"
| "shorter_had_no_results min_char menu_cache term_cache states (Suc k) =
     (if Suc k > min_char then
        (case menu_cache (take (Suc k) term_cache @ ''|'' @ states) of
           Some [] \<Rightarrow> True
         | _ \<Rightarrow> shorter_had_no_results min_char menu_cache term_cache states k)
      else False)"

text \<open>The \<^verbatim>\<open>keyup\<close> handler of the menu, for the key \<open>which\<close> and the text \<open>val\<close>.\<close>

definition keyup :: "sa_opts \<Rightarrow> (string \<rightharpoonup> 'a list) \<Rightarrow> nat \<Rightarrow> string \<Rightarrow> 'a menu_action" where
  "keyup opts menu_cache which val =
     (if which \<in> set [13, 27, 33, 34, 35, 36, 37, 38, 39, 40] then KeyIgnored
      else if length (trim val) < menu_min_char opts then MenuClosed
      else
        (let (search_term, states) = getSearchTermStates opts val;
             lat_lon0 = split_on CHR '' '' search_term;
             lat_lon = (if length lat_lon0 < 2 then lat_lon0 @ [''X''] else lat_lon0);
             lat = parseFloat (lat_lon ! 0);
             lon = num_neg (Math_abs (parseFloat (lat_lon ! 1)));
             term_cache = search_term @ ''|'' @ states;
             no_coordinate =
               (case menu_cache term_cache of
                  Some data \<Rightarrow> ShowData search_term data
                | None \<Rightarrow>
                    if shorter_had_no_results (menu_min_char opts) menu_cache term_cache states
                         (length (hd (split_on CHR ''|'' term_cache)) - 1)
                    then ShowData search_term []
                    else NewRequest search_term states)
         in (case (lat, lon) of
               (Some la, Some lo) \<Rightarrow>
                 if lat_min opts \<le> la \<and> la \<le> lat_max opts \<and> lon_min opts \<le> lo \<and> lo \<le> lon_max opts
                 then ShowCoordinate search_term la lo
                 else no_coordinate
             | _ \<Rightarrow> no_coordinate)))"

text \<open>
  The \<^verbatim>\<open>success\<close> handler of the request, for an answer that is an array: the menu shows
  the items and the cache keeps them, also when there are none.
\<close>

definition request_success :: "(string \<rightharpoonup> 'a list) \<Rightarrow> string \<Rightarrow> string \<Rightarrow> 'a list \<Rightarrow> (string \<rightharpoonup> 'a list)" where
  "request_success menu_cache search_term states data = menu_cache(search_term @ ''|'' @ states \<mapsto> data)"

definition sa_default :: sa_opts where
  "sa_default =
     \<lparr>lat_min = - 90, lat_max = 90, lon_min = - 180, lon_max = 180, search_states = ''ALL'',
      menu_min_char = 3\<rparr>"

section \<open>Vocabulary of the properties\<close>

text \<open>
  The formula that the specification gives for degrees, minutes and seconds, in its own
  words: the sign of the degrees times the sum of their magnitude and the fractions.
\<close>

definition dms_formula :: "real \<Rightarrow> real \<Rightarrow> real \<Rightarrow> real" where
  "dms_formula d m s = sgn d * (\<bar>d\<bar> + m / 60 + s / 3600)"

text \<open>
  The order of normalisation that the specification describes: upper case, the character
  class, the runs of white space, \<^verbatim>\<open>trim\<close>, and only then \<^verbatim>\<open>ST\<close>.
\<close>

definition term_in_described_order :: "string \<Rightarrow> string" where
  "term_in_described_order v =
     expand_saint (trim (collapse_spaces '' ''
       (map (\<lambda>c. if term_char c then c else CHR '' '') (toUpperCase v))))"

text \<open>
  The positions of a token list that hold a number, by the four formats of the parser, and
  the two ways a token list can be malformed.
\<close>

definition numeric_positions :: "nat \<Rightarrow> nat list" where
  "numeric_positions n =
     (if n = 8 then [0, 1, 2, 4, 5, 6] else if n = 6 then [0, 1, 2, 3, 4, 5]
      else if n = 4 then [0, 2] else if n = 2 then [0, 1] else [])"

definition non_numeric_component :: "string list \<Rightarrow> bool" where
  "non_numeric_component parts =
     list_ex (\<lambda>i. Number (parts ! i) = NaN) (numeric_positions (length parts))"

definition unrecognized_hemisphere :: "string list \<Rightarrow> bool" where
  "unrecognized_hemisphere parts =
     (length parts = 8 \<and> (parts ! 3 \<notin> {''N'', ''S''} \<or> parts ! 7 \<notin> {''E'', ''W''}) \<or>
      length parts = 4 \<and> (parts ! 1 \<notin> {''N'', ''S''} \<or> parts ! 3 \<notin> {''E'', ''W''}))"

text \<open>The query that \<^verbatim>\<open>gc._locate\<close> parses from the control.\<close>

definition query :: "control \<Rightarrow> input" where
  "query c = parseInput (options_of c) (input_value c)"

text \<open>
  A resolution reaches the comment \<^verbatim>\<open>start locate\<close>, and so the services, when the text
  is long enough, the query is not cached, and no coordinate was parsed that the validator
  accepts.
\<close>

definition starts_fetch :: "control \<Rightarrow> bool" where
  "starts_fetch c =
     (\<not> real (length (trim (input_value c))) < opt_minCharacters (options_of c) \<and>
      cache c (in_cacheKey (query c)) = None \<and>
      (case in_latlon (query c) of
         None \<Rightarrow> True
       | Some ll \<Rightarrow> getFeature (options_of c) (query c) (latlon_properties ll) = None))"

definition gnis_included :: "options \<Rightarrow> bool" where
  "gnis_included opts = str_includes (toLowerCase (opt_include opts)) ''gnis''"

text \<open>The primary request ends in its \<^verbatim>\<open>then\<close> handler: a non-empty array came back.\<close>

definition primary_succeeds :: "env \<Rightarrow> bool" where
  "primary_succeeds e = (case primary e of Records (p # ps) \<Rightarrow> True | _ \<Rightarrow> False)"

definition secondary_succeeds :: "env \<Rightarrow> bool" where
  "secondary_succeeds e = (case secondary e of Candidates (a # as) \<Rightarrow> True | _ \<Rightarrow> False)"

text \<open>
  The resolution asks the secondary service: the primary request did not succeed, the
  signal was not aborted then, and \<^verbatim>\<open>include\<close> names \<^verbatim>\<open>gnis\<close>.
\<close>

definition asks_secondary :: "options \<Rightarrow> env \<Rightarrow> bool" where
  "asks_secondary opts e = (\<not> primary_succeeds e \<and> \<not> aborted1 e \<and> gnis_included opts)"

text \<open>The state of the abort signal when the \<^verbatim>\<open>endLocate\<close> of the resolution runs.\<close>

definition aborted_at_end :: "options \<Rightarrow> env \<Rightarrow> bool" where
  "aborted_at_end opts e = (if asks_secondary opts e then aborted2 e else aborted1 e)"

text \<open>The features that each \<^verbatim>\<open>then\<close> handler stores in \<^verbatim>\<open>control._suggestions.features\<close>.\<close>

definition primary_features :: "options \<Rightarrow> input \<Rightarrow> env \<Rightarrow> feature list" where
  "primary_features opts inp e =
     (case primary e of Records ps \<Rightarrow> List.map_filter (getFeature opts inp) ps | _ \<Rightarrow> [])"

definition secondary_features :: "options \<Rightarrow> input \<Rightarrow> env \<Rightarrow> feature list" where
  "secondary_features opts inp e =
     (case secondary e of
        Candidates cs \<Rightarrow> sort_features (foldl (add_candidate opts inp) [] cs)
      | _ \<Rightarrow> [])"

text \<open>The calls of \<^verbatim>\<open>_updateMenu\<close> among the events of a control.\<close>

definition menu_updates :: "control \<Rightarrow> event list" where
  "menu_updates c = filter (\<lambda>ev. case ev of UpdateMenu _ \<Rightarrow> True | _ \<Rightarrow> False) (events c)"

definition requests :: "control \<Rightarrow> event list" where
  "requests c = filter (\<lambda>ev. case ev of UpdateMenu _ \<Rightarrow> False | _ \<Rightarrow> True) (events c)"

text \<open>
  What holds of every feature that the validator lets through: latitude and longitude
  within the bounds rounded as the coordinates are, a score of at least \<^verbatim>\<open>minScore\<close>, and
  the required texts present.
\<close>

definition surfaced_ok :: "options \<Rightarrow> feature \<Rightarrow> bool" where
  "surfaced_ok opts f =
     (let (latMin, lonMin, latMax, lonMax) = active_bounds opts; q = properties f
      in num_between (roundCoord latMin) (roundCoord latMax) (Latitude q) \<and>
         num_between (roundCoord lonMin) (roundCoord lonMax) (Longitude q) \<and>
         num_at_least minScore (Score q) \<and>
         Type q \<noteq> [] \<and> Name q \<noteq> [] \<and> Source q \<noteq> [])"

text \<open>
  The conjunction that \<^verbatim>\<open>isValid\<close> holds at the end of the table, read off the record as
  the service sent it: the rows without a \<^verbatim>\<open>default\<close> are present, and the rows with a
  \<^verbatim>\<open>validate\<close> pass it (a missing score passes by its default of 100, a missing state is
  validated as the empty string).
\<close>

definition valid_record :: "options \<Rightarrow> input \<Rightarrow> properties \<Rightarrow> bool" where
  "valid_record opts inp p =
     (let (latMin, lonMin, latMax, lonMax) = active_bounds opts
      in num_between latMin latMax (Latitude p) \<and> num_between lonMin lonMax (Longitude p) \<and>
         trim (Name p) \<noteq> [] \<and> (Score p = NaN \<or> num_at_least minScore (Score p)) \<and>
         trim (Source p) \<noteq> [] \<and> state_allowed inp (trim (State p)) \<and> trim (Type p) \<noteq> [])"

text \<open>Every feature that the cache of a control holds passes these checks.\<close>

definition cache_ok :: "control \<Rightarrow> bool" where
  "cache_ok c = (\<forall>fs \<in> ran (cache c). list_all (surfaced_ok (options_of c)) fs)"

text \<open>The same of the record as the service sent it, against the bounds as configured.\<close>

definition raw_ok :: "options \<Rightarrow> properties \<Rightarrow> bool" where
  "raw_ok opts p =
     (let (latMin, lonMin, latMax, lonMax) = active_bounds opts
      in num_between latMin latMax (Latitude p) \<and>
         num_between lonMin lonMax (Longitude p) \<and>
         (Score p = NaN \<or> num_at_least minScore (Score p)) \<and>
         trim (Type p) \<noteq> [] \<and> trim (Name p) \<noteq> [] \<and> trim (Source p) \<noteq> [])"

subsection \<open>Controls, records and answers used as examples\<close>

definition new_control :: control where
  "new_control =
     \<lparr>ctl_options = Some defaultOptions, input_value = [], hidden = False, disabled = False,
      busy = False, cache = Map.empty, suggestions = [], selected = None, events = []\<rparr>"

definition default_options :: options where
  "default_options = read_options (map_of defaultOptions)"

definition no_properties :: properties where
  "no_properties =
     \<lparr>County = [], GnisId = None, Label = [], Latitude = None, LatitudeMax = None,
      LatitudeMin = None, Longitude = None, LongitudeMax = None, LongitudeMin = None,
      Name = [], Score = None, Source = [], State = [], Type = [], Bounds = None\<rparr>"

definition austin :: properties where
  "austin =
     no_properties\<lparr>Name := ''Austin'', Type := ''Populated Place'', Source := ''gnis'',
       Latitude := Some (30267 / 1000), Longitude := Some (- 97743 / 1000)\<rparr>"

definition quiet :: env where
  "quiet = \<lparr>primary = Records [], aborted1 = False, secondary = NoCandidates, aborted2 = False\<rparr>"

text \<open>Bounds that are not whole millionths of a degree, and a place just inside them.\<close>

definition tight_bounds :: options where
  "tight_bounds = default_options\<lparr>opt_bounds := Some (40000001 / 10000000, - 95, 45, - 90)\<rparr>"

definition near_edge :: properties where
  "near_edge = austin\<lparr>Latitude := Some (40000002 / 10000000), Longitude := Some (- 93)\<rparr>"

text \<open>A control that asks the primary service only, with a text typed into it.\<close>

definition no_gnis_control :: control where
  "no_gnis_control =
     new_control\<lparr>ctl_options := Some (Object_assign defaultOptions [(''include'', JStr ''postal state'')]),
       input_value := ''austin''\<rparr>"

definition typing :: "string \<Rightarrow> control" where
  "typing v = new_control\<lparr>input_value := v\<rparr>"

text \<open>Answers of the services: a place found, and a resolution cancelled while it waits.\<close>

definition answered :: env where
  "answered = quiet\<lparr>primary := Records [austin]\<rparr>"

definition cancelled :: env where
  "cancelled = answered\<lparr>aborted1 := True, aborted2 := True\<rparr>"

text \<open>A control after a resolution that found a place, with the place selected.\<close>

definition used_control :: control where
  "used_control = click_item 0 (locate answered (typing ''austin''))"

section \<open>Properties: numbers and the coordinate parser\<close>

lemma num_mul_NaN [simp]: "num_mul NaN b = NaN" "num_mul a NaN = NaN"
  by (cases a; simp add: num_mul_def)+

lemma num_add_NaN [simp]: "num_add NaN b = NaN" "num_add a NaN = NaN"
  by (cases a; simp add: num_add_def)+

lemma num_ops_Some [simp]:
  "num_mul (Some x) (Some y) = Some (x * y)"
  "num_add (Some x) (Some y) = Some (x + y)"
  "num_over (Some x) k = Some (x / k)"
  "num_neg (Some x) = Some (- x)"
  "Math_sign (Some x) = Some (sgn x)"
  "Math_abs (Some x) = Some \<bar>x\<bar>"
  by (simp_all add: num_mul_def num_add_def num_over_def num_neg_def Math_sign_def Math_abs_def)

lemma num_unary_NaN [simp]:
  "num_over NaN k = NaN" "num_neg NaN = NaN" "Math_sign NaN = NaN" "Math_abs NaN = NaN"
  by (simp_all add: num_over_def num_neg_def Math_sign_def Math_abs_def)

lemma num_unary_eq_NaN [simp]:
  "num_neg a = NaN \<longleftrightarrow> a = NaN" "Math_abs a = NaN \<longleftrightarrow> a = NaN"
  by (simp_all add: num_neg_def Math_abs_def)

lemma dms2dec_NaN:
  "Number d = NaN \<or> Number m = NaN \<or> Number s = NaN \<Longrightarrow> dms2dec d m s = NaN"
  by (auto simp: dms2dec_def)

text \<open>What \<^verbatim>\<open>dms2dec\<close> computes of three numeric tokens: the sign multiplies a sum in
  which the degrees keep their own sign.\<close>

lemma dms2dec_value:
  "Number d = Some x \<Longrightarrow> Number m = Some y \<Longrightarrow> Number s = Some z \<Longrightarrow>
   dms2dec d m s = Some (sgn x * (x + y / 60 + z / 3600))"
  by (simp add: dms2dec_def)

text \<open>For degrees that are not negative this is the formula of the specification.\<close>

lemma dms2dec_nonneg:
  "Number d = Some x \<Longrightarrow> Number m = Some y \<Longrightarrow> Number s = Some z \<Longrightarrow> 0 \<le> x \<Longrightarrow>
   dms2dec d m s = Some (dms_formula x y z)"
  by (simp add: dms2dec_value dms_formula_def)

text \<open>For negative degrees the minutes and the seconds are subtracted from the magnitude,
  and the result is positive whenever the degrees outweigh them.\<close>

lemma dms2dec_neg:
  "Number d = Some x \<Longrightarrow> Number m = Some y \<Longrightarrow> Number s = Some z \<Longrightarrow> x < 0 \<Longrightarrow>
   dms2dec d m s = Some (\<bar>x\<bar> - y / 60 - z / 3600)"
  by (simp add: dms2dec_value)

text \<open>
  Claim C3. The decimal value of a triple of degrees, minutes and seconds is the sign of the
  degrees times the sum of their magnitude, the minutes over 60 and the seconds over 3600.
  The source multiplies the sign into a sum that holds the signed degrees, so for the
  tokens \<^verbatim>\<open>-30 30 0\<close> it yields 29.5 where the formula yields -30.5: the minutes move the
  value towards zero, and the sign is lost.
\<close>

theorem dms2dec_negative_degrees:
  "dms2dec ''-30'' ''30'' ''0'' = Some (59 / 2) \<and> dms_formula (- 30) 30 0 = - (61 / 2) \<and>
   Number ''-30'' = Some (- 30) \<and> Number ''30'' = Some 30 \<and> Number ''0'' = Some 0"
proof -
  have n: "Number ''-30'' = Some (- 30)" "Number ''30'' = Some 30" "Number ''0'' = Some 0"
    by code_simp+
  have "dms2dec ''-30'' ''30'' ''0'' = Some (59 / 2)"
    by (simp add: dms2dec_value [OF n])
  moreover have "dms_formula (- 30) 30 0 = - (61 / 2)"
    by (simp add: dms_formula_def)
  ultimately show ?thesis
    using n by simp
qed

lemma NS_NaN: "k \<notin> {''N'', ''S''} \<Longrightarrow> NS k = NaN"
  by (simp add: NS_def)

lemma EW_NaN: "k \<notin> {''E'', ''W''} \<Longrightarrow> EW k = NaN"
  by (simp add: EW_def)

lemma parse_latlon_length:
  "length parts \<notin> {2, 4, 6, 8} \<Longrightarrow> parse_latlon parts = None"
  by (simp add: parse_latlon_def)

lemma parse_latlon_NaN:
  "non_numeric_component parts \<Longrightarrow> parse_latlon parts = None"
  unfolding non_numeric_component_def numeric_positions_def parse_latlon_def
  by (auto simp: dms2dec_NaN split: if_splits option.splits)

lemma parse_latlon_hemisphere:
  "unrecognized_hemisphere parts \<Longrightarrow> parse_latlon parts = None"
  unfolding unrecognized_hemisphere_def parse_latlon_def
  by (auto simp: NS_NaN EW_NaN split: option.splits)

lemma toFixed_number_Ints: "toFixed_number n x * 10 ^ n \<in> \<int>"
proof -
  have "sgn x \<in> \<int>"
    by (cases "x < 0"; cases "x = 0") (simp_all add: sgn_if)
  then show ?thesis
    by (simp add: toFixed_number_def)
qed

lemma parse_latlon_rounded:
  "parse_latlon parts = Some (lat, lon) \<Longrightarrow> lat * 10 ^ 6 \<in> \<int> \<and> lon * 10 ^ 6 \<in> \<int>"
  unfolding parse_latlon_def Let_def
  using toFixed_number_Ints [of 6]
  by (auto simp: roundCoord_def nCoordDecimals_def split: prod.splits option.splits)

text \<open>
  Claim C4. A token list whose length is not 2, 4, 6 or 8, one with a component that is
  not a number where the format wants one, and one with a hemisphere letter that is not
  recognized are all parsed to nothing; and the latitude and longitude of every parsed
  coordinate are rounded to six decimals (a whole number of millionths).
\<close>

theorem parse_latlon_rejects_and_rounds:
  "(length parts \<notin> {2, 4, 6, 8} \<longrightarrow> parse_latlon parts = None) \<and>
   (non_numeric_component parts \<longrightarrow> parse_latlon parts = None) \<and>
   (unrecognized_hemisphere parts \<longrightarrow> parse_latlon parts = None) \<and>
   (\<forall>lat lon. parse_latlon parts = Some (lat, lon) \<longrightarrow> lat * 10 ^ 6 \<in> \<int> \<and> lon * 10 ^ 6 \<in> \<int>)"
  using parse_latlon_length parse_latlon_NaN parse_latlon_hemisphere parse_latlon_rounded
  by blast

theorem parse_latlon_rejects_and_rounds_witness:
  "parse_latlon [''30'', ''N'', ''90''] = None \<and>
   non_numeric_component [''30'', ''9O''] \<and> parse_latlon [''30'', ''9O''] = None \<and>
   unrecognized_hemisphere [''30'', ''N'', ''90'', ''Q''] \<and>
   parse_latlon [''30'', ''N'', ''90'', ''Q''] = None \<and>
   parse_latlon [''30.123456789'', ''S'', ''90.123456789'', ''E''] =
     Some (- (30123457 / 1000000), 90123457 / 1000000) \<and>
   (- (30123457 / 1000000) :: real) * 10 ^ 6 \<in> \<int> \<and> (90123457 / 1000000 :: real) * 10 ^ 6 \<in> \<int>"
proof -
  have a: "length [''30'', ''N'', ''90''] \<notin> {2, 4, 6, 8 :: nat}"
    by simp
  have b: "non_numeric_component [''30'', ''9O'']"
    by code_simp
  have c: "unrecognized_hemisphere [''30'', ''N'', ''90'', ''Q'']"
    by (simp add: unrecognized_hemisphere_def)
  have d: "parse_latlon [''30.123456789'', ''S'', ''90.123456789'', ''E''] =
      Some (- (30123457 / 1000000), 90123457 / 1000000)"
    by code_simp
  show ?thesis
    using a b c d
      parse_latlon_rejects_and_rounds [of "[''30'', ''N'', ''90'']"]
      parse_latlon_rejects_and_rounds [of "[''30'', ''9O'']"]
      parse_latlon_rejects_and_rounds [of "[''30'', ''N'', ''90'', ''Q'']"]
      parse_latlon_rejects_and_rounds [of "[''30.123456789'', ''S'', ''90.123456789'', ''E'']"]
    by blast
qed

section \<open>Properties: the search term\<close>

text \<open>The older widget trims first, so it expands the token behind leading white space.\<close>

lemma filter_term_leading_space: "filter_term '' st louis'' = ''SAINT LOUIS''"
  by code_simp

text \<open>
  Claim C9. The term is the text in upper case, with every character outside
  \<^verbatim>\<open>[A-Z0-9*\-.]\<close> replaced by a space, the runs of white space collapsed, trimmed, and then
  with a leading \<^verbatim>\<open>ST\<close> token expanded to \<^verbatim>\<open>SAINT\<close>, so that the token is expanded also behind
  leading white space. The source expands before it trims: of the text \<^verbatim>\<open> st louis\<close> it
  makes \<^verbatim>\<open>ST LOUIS\<close>, where the described order makes \<^verbatim>\<open>SAINT LOUIS\<close>.
\<close>

theorem parse_term_leading_space:
  "parse_term '' st louis'' = ''ST LOUIS'' \<and>
   term_in_described_order '' st louis'' = ''SAINT LOUIS'' \<and>
   in_term (parseInput (read_options (map_of defaultOptions)) '' st louis'') = ''ST LOUIS''"
  by code_simp

section \<open>Properties: the candidate validator\<close>

lemma minScore_default: "num_at_least minScore (Some 100)"
  by (simp add: num_at_least_def minScore_def)

lemma check_property_fst:
  "fst (check_property v missing dflt validate format) =
     ((missing \<longrightarrow> dflt \<noteq> None) \<and>
      validate (if missing then (case dflt of Some d \<Rightarrow> d | None \<Rightarrow> v) else v))"
  by (simp add: check_property_def Let_def)

lemma check_property_snd:
  "snd (check_property v missing dflt validate format) =
     format (if missing then (case dflt of Some d \<Rightarrow> d | None \<Rightarrow> v) else v)"
  by (simp add: check_property_def Let_def)

text \<open>\<^verbatim>\<open>isValid\<close> ends true exactly for the records that pass every row.\<close>

lemma check_properties_valid: "fst (check_properties opts inp p) = valid_record opts inp p"
  unfolding check_properties_def valid_record_def Let_def case_prod_beta
    string_property_def number_property_def
  by (auto simp: check_property_fst no_validate_def num_between_def minScore_default)

text \<open>The properties that the rows store, in terms of the record that was given.\<close>

lemma check_properties_values:
  "Latitude (snd (check_properties opts inp p)) = map_option roundCoord (Latitude p)"
  "Longitude (snd (check_properties opts inp p)) = map_option roundCoord (Longitude p)"
  "Score (snd (check_properties opts inp p)) =
     map_option Math_round (if Score p = NaN then Some 100 else Score p)"
  "Name (snd (check_properties opts inp p)) = trim (Name p)"
  "Source (snd (check_properties opts inp p)) = trim (Source p)"
  "Type (snd (check_properties opts inp p)) = trim (Type p)"
  "State (snd (check_properties opts inp p)) = toUpperCase (trim (State p))"
  unfolding check_properties_def Let_def case_prod_beta string_property_def number_property_def
  by (simp_all add: check_property_snd)

lemma getFeature_eq:
  "getFeature opts inp p =
     (if valid_record opts inp p
      then Some \<lparr>coordinates = (Longitude (snd (check_properties opts inp p)),
                                Latitude (snd (check_properties opts inp p))),
                 properties = (snd (check_properties opts inp p))
                   \<lparr>Bounds := Some ((LatitudeMin (snd (check_properties opts inp p)),
                                     LongitudeMin (snd (check_properties opts inp p))),
                                    (LatitudeMax (snd (check_properties opts inp p)),
                                     LongitudeMax (snd (check_properties opts inp p))))\<rparr>\<rparr>
      else None)"
  by (simp add: getFeature_def case_prod_beta check_properties_valid)

text \<open>The validator returns no feature exactly for the records that fail a row.\<close>

lemma getFeature_None_iff: "getFeature opts inp p = None \<longleftrightarrow> \<not> valid_record opts inp p"
  by (simp add: getFeature_eq)

lemma getFeature_Some:
  assumes "getFeature opts inp p = Some f"
  shows "Latitude (properties f) = map_option roundCoord (Latitude p)"
    and "Longitude (properties f) = map_option roundCoord (Longitude p)"
    and "Score (properties f) = map_option Math_round (if Score p = NaN then Some 100 else Score p)"
    and "Name (properties f) = trim (Name p)"
    and "Source (properties f) = trim (Source p)"
    and "Type (properties f) = trim (Type p)"
    and "State (properties f) = toUpperCase (trim (State p))"
    and "coordinates f = (Longitude (properties f), Latitude (properties f))"
  using assms check_properties_values [of opts inp p]
  by (auto simp: getFeature_eq split: if_splits)

lemma toFixed_number_nonneg:
  "0 \<le> z \<Longrightarrow> toFixed_number n z = of_int \<lfloor>z * 10 ^ n + 1 / 2\<rfloor> / 10 ^ n"
  by (cases "z = 0") (simp_all add: toFixed_number_def)

lemma toFixed_number_neg:
  "z < 0 \<Longrightarrow> toFixed_number n z = - (of_int \<lfloor>- z * 10 ^ n + 1 / 2\<rfloor> / 10 ^ n)"
  by (simp add: toFixed_number_def)

lemma toFixed_number_sign:
  "0 \<le> z \<Longrightarrow> 0 \<le> toFixed_number n z" "z < 0 \<Longrightarrow> toFixed_number n z \<le> 0"
proof -
  show "0 \<le> z \<Longrightarrow> 0 \<le> toFixed_number n z"
    by (simp add: toFixed_number_nonneg)
  show "z < 0 \<Longrightarrow> toFixed_number n z \<le> 0"
  proof -
    assume "z < 0"
    then have "z * 10 ^ n \<le> 0"
      by (simp add: mult_le_0_iff)
    then have "0 \<le> - z * 10 ^ n + 1 / 2"
      by simp
    then have "0 \<le> \<lfloor>- z * 10 ^ n + 1 / 2\<rfloor>"
      by (simp only: zero_le_floor)
    with \<open>z < 0\<close> show ?thesis
      by (simp add: toFixed_number_neg)
  qed
qed

text \<open>Rounding keeps the order of two numbers.\<close>

lemma toFixed_number_mono:
  assumes "x \<le> y"
  shows "toFixed_number n x \<le> toFixed_number n y"
proof (cases "0 \<le> x")
  case True
  with assms have "0 \<le> y" by simp
  have "x * 10 ^ n + 1 / 2 \<le> y * 10 ^ n + 1 / 2"
    using assms by (simp add: mult_right_mono)
  then have "\<lfloor>x * 10 ^ n + 1 / 2\<rfloor> \<le> \<lfloor>y * 10 ^ n + 1 / 2\<rfloor>"
    by (rule floor_mono)
  then show ?thesis
    using True \<open>0 \<le> y\<close> by (simp add: toFixed_number_nonneg divide_right_mono)
next
  case False
  then have x: "x < 0" by simp
  show ?thesis
  proof (cases "0 \<le> y")
    case True
    then show ?thesis
      using toFixed_number_sign(1) [of y n] toFixed_number_sign(2) [OF x, of n] by linarith
  next
    case False
    then have y: "y < 0" by simp
    have "- y * 10 ^ n + 1 / 2 \<le> - x * 10 ^ n + 1 / 2"
      using assms by (simp add: mult_right_mono)
    then have "\<lfloor>- y * 10 ^ n + 1 / 2\<rfloor> \<le> \<lfloor>- x * 10 ^ n + 1 / 2\<rfloor>"
      by (rule floor_mono)
    then show ?thesis
      using x y by (simp add: toFixed_number_neg divide_right_mono)
  qed
qed

lemma roundCoord_mono: "x \<le> y \<Longrightarrow> roundCoord x \<le> roundCoord y"
  by (simp add: roundCoord_def toFixed_number_mono)

text \<open>A number that has no more than \<open>n\<close> decimals is not changed by the rounding.\<close>

lemma toFixed_number_fixed:
  assumes "x * 10 ^ n \<in> \<int>"
  shows "toFixed_number n x = x"
proof -
  from assms obtain k :: int where k: "x * 10 ^ n = of_int k"
    by (auto elim: Ints_cases)
  then have x: "x = of_int k / 10 ^ n"
    by (simp add: field_simps)
  show ?thesis
  proof (cases "0 \<le> x")
    case True
    have "\<lfloor>x * 10 ^ n + 1 / 2\<rfloor> = k"
      unfolding k by linarith
    then show ?thesis
      using True x by (simp add: toFixed_number_nonneg)
  next
    case False
    have "- x * 10 ^ n = of_int (- k)"
      using k by simp
    then have "\<lfloor>- x * 10 ^ n + 1 / 2\<rfloor> = \<lfloor>of_int (- k) + (1 / 2 :: real)\<rfloor>"
      by simp
    also have "\<dots> = - k"
      by linarith
    finally have "\<lfloor>- x * 10 ^ n + 1 / 2\<rfloor> = - k" .
    then show ?thesis
      using False x by (simp add: toFixed_number_neg)
  qed
qed

lemma Math_round_at_least: "minScore \<le> x \<Longrightarrow> minScore \<le> Math_round x"
proof -
  assume "minScore \<le> x"
  then have "(80 :: int) \<le> \<lfloor>x + 1 / 2\<rfloor>"
    unfolding minScore_def by linarith
  then show ?thesis
    unfolding minScore_def Math_round_def by linarith
qed

lemma num_between_round:
  "num_between lo hi v \<Longrightarrow> num_between (roundCoord lo) (roundCoord hi) (map_option roundCoord v)"
  by (cases v) (simp_all add: num_between_def roundCoord_mono)

text \<open>What the validator lets through passes the checks, before and after the rounding.\<close>

lemma getFeature_raw_ok: "getFeature opts inp p = Some f \<Longrightarrow> raw_ok opts p"
proof -
  assume "getFeature opts inp p = Some f"
  then have "valid_record opts inp p"
    using getFeature_None_iff [of opts inp p] by simp
  then show ?thesis
    by (cases "active_bounds opts") (simp add: valid_record_def raw_ok_def)
qed

lemma getFeature_surfaced_ok:
  assumes "getFeature opts inp p = Some f"
  shows "surfaced_ok opts f"
proof -
  obtain latMin lonMin latMax lonMax where b: "active_bounds opts = (latMin, lonMin, latMax, lonMax)"
    by (cases "active_bounds opts")
  have v: "valid_record opts inp p"
    using assms getFeature_None_iff [of opts inp p] by simp
  note g = getFeature_Some [OF assms]
  have lat: "num_between (roundCoord latMin) (roundCoord latMax) (Latitude (properties f))"
    using v b by (simp add: valid_record_def g(1) num_between_round)
  have lon: "num_between (roundCoord lonMin) (roundCoord lonMax) (Longitude (properties f))"
    using v b by (simp add: valid_record_def g(2) num_between_round)
  have sc: "num_at_least minScore (Score (properties f))"
  proof (cases "Score p")
    case None
    then show ?thesis
      using Math_round_at_least [of 100] by (simp add: g(3) num_at_least_def minScore_def)
  next
    case (Some x)
    then have "minScore \<le> x"
      using v b by (simp add: valid_record_def num_at_least_def)
    then show ?thesis
      using Some by (simp add: g(3) num_at_least_def Math_round_at_least)
  qed
  have req: "Type (properties f) \<noteq> [] \<and> Name (properties f) \<noteq> [] \<and> Source (properties f) \<noteq> []"
    using v b by (simp add: valid_record_def g(4,5,6))
  show ?thesis
    using lat lon sc req b by (simp add: surfaced_ok_def)
qed

text \<open>
  Claim C7, as amended. The validator rejects every candidate whose state, read after
  \<^verbatim>\<open>trim\<close> and with a missing state read as the empty string, is not an entry of the active
  state filter: a missing state is defaulted to the empty string and then validated like
  any other, so it is rejected too. Only when no state filter is active does the state, or
  its absence, play no part in the rejection.
\<close>

theorem getFeature_state_filter:
  "(in_states inp = Some st \<and> st \<noteq> [] \<and> trim (State p) \<notin> set (split_on CHR '','' st) \<longrightarrow>
      getFeature opts inp p = None) \<and>
   (in_states inp = None \<longrightarrow>
      (getFeature opts inp p = None) = (getFeature opts inp (p\<lparr>State := []\<rparr>) = None))"
  by (cases "active_bounds opts")
     (simp add: getFeature_None_iff valid_record_def state_allowed_def)

theorem getFeature_state_filter_witness:
  "getFeature default_options (parseInput default_options ''austin tx'') austin = None \<and>
   (getFeature default_options (parseInput default_options ''austin'') (austin\<lparr>State := ''OK''\<rparr>) = None) =
   (getFeature default_options (parseInput default_options ''austin'')
      (austin\<lparr>State := ''OK'', State := []\<rparr>) = None)"
proof -
  have a: "in_states (parseInput default_options ''austin tx'') = Some ''TX''"
    by code_simp
  have b: "trim (State austin) \<notin> set (split_on CHR '','' ''TX'')"
    by code_simp
  have c: "in_states (parseInput default_options ''austin'') = None"
    by code_simp
  show ?thesis
    using a b c
      getFeature_state_filter [of "parseInput default_options ''austin tx''" "''TX''" austin default_options]
      getFeature_state_filter [of "parseInput default_options ''austin''" "[]"
        "austin\<lparr>State := ''OK''\<rparr>" default_options]
    by simp
qed

text \<open>
  The claim as it was stated fails: with the filter \<^verbatim>\<open>TX\<close> active, a record without a state
  is rejected, and the same record with the state \<^verbatim>\<open>TX\<close> is accepted.
\<close>

theorem absent_state_rejected:
  "in_states (parseInput default_options ''austin tx'') = Some ''TX'' \<and>
   State austin = [] \<and>
   getFeature default_options (parseInput default_options ''austin tx'') austin = None \<and>
   getFeature default_options (parseInput default_options ''austin tx'') (austin\<lparr>State := ''TX''\<rparr>) \<noteq> None"
  by code_simp

section \<open>Properties: one resolution of a query\<close>

lemma updateMenu_fields [simp]:
  "cache (updateMenu t c) = cache c"
  "events (updateMenu t c) = events c @ [UpdateMenu t]"
  "ctl_options (updateMenu t c) = ctl_options c"
  by (simp_all add: updateMenu_def Let_def)

lemma updateMenu_suggestions:
  "suggestions (updateMenu t c) =
     (if t = None \<or> t = Some [] \<or> suggestions c = [] \<or> hidden c \<or> disabled c then []
      else suggestions c)"
  by (simp add: updateMenu_def Let_def)

lemma updateMenu_suggestions_subset: "set (suggestions (updateMenu t c)) \<subseteq> set (suggestions c)"
  by (simp add: updateMenu_suggestions)

lemma endLocate_aborted: "endLocate inp True b c = c\<lparr>busy := False\<rparr>"
  by (simp add: endLocate_def)

lemma endLocate_fields [simp]:
  "cache (endLocate inp a b c) =
     (if \<not> a \<and> b then (cache c)(in_cacheKey inp \<mapsto> suggestions c) else cache c)"
  "events (endLocate inp a b c) =
     (if a then events c else events c @ [UpdateMenu (Some (in_term inp))])"
  "ctl_options (endLocate inp a b c) = ctl_options c"
  by (simp_all add: endLocate_def Let_def)

lemma endLocate_suggestions:
  "suggestions (endLocate inp a b c) =
     (if a then suggestions c
      else if in_term inp = [] \<or> suggestions c = [] \<or> hidden c \<or> disabled c then []
      else suggestions c)"
  by (simp add: endLocate_def Let_def updateMenu_suggestions)

lemma endLocate_suggestions_subset:
  "set (suggestions (endLocate inp a b c)) \<subseteq> set (suggestions c)"
  by (simp add: endLocate_suggestions)

lemma primary_succeeds_iff: "primary_succeeds e \<longleftrightarrow> (\<exists>p ps. primary e = Records (p # ps))"
  by (auto simp: primary_succeeds_def split: response1.splits list.splits)

lemma secondary_succeeds_iff: "secondary_succeeds e \<longleftrightarrow> (\<exists>a as. secondary e = Candidates (a # as))"
  by (auto simp: secondary_succeeds_def split: response2.splits list.splits)

text \<open>The secondary request, once asked.\<close>

lemma locate_secondary_eq:
  "locate_secondary opts inp e c =
     (if secondary_succeeds e
      then endLocate inp (aborted2 e) True (c\<lparr>suggestions := secondary_features opts inp e\<rparr>)
      else endLocate inp (aborted2 e) False c)"
  by (auto simp: locate_secondary_def secondary_succeeds_def secondary_features_def
           split: response2.splits list.splits)

text \<open>The primary request and what follows it, by the three ways it can go on.\<close>

lemma locate_primary_eq:
  "locate_primary opts inp e c =
     (if primary_succeeds e
      then endLocate inp (aborted1 e) True (c\<lparr>suggestions := primary_features opts inp e\<rparr>)
      else if asks_secondary opts e
      then locate_secondary opts inp e (c\<lparr>events := events c @ [Fetch2 (in_term inp)]\<rparr>)
      else endLocate inp (aborted1 e) False c)"
  by (auto simp: locate_primary_def primary_succeeds_def primary_features_def asks_secondary_def
                 gnis_included_def
           split: response1.splits list.splits)

lemma locate_fetch_cache:
  "cache (locate_fetch opts inp e c) =
     (if aborted_at_end opts e then cache c
      else if primary_succeeds e
        then (cache c)(in_cacheKey inp \<mapsto> primary_features opts inp e)
      else if asks_secondary opts e \<and> secondary_succeeds e
        then (cache c)(in_cacheKey inp \<mapsto> secondary_features opts inp e)
      else cache c)"
  by (simp add: locate_fetch_def locate_primary_eq locate_secondary_eq aborted_at_end_def
        asks_secondary_def)

lemma locate_fetch_events:
  "events (locate_fetch opts inp e c) =
     events c @ [Fetch1 (in_term inp) (in_states inp)] @
     (if asks_secondary opts e then [Fetch2 (in_term inp)] else []) @
     (if aborted_at_end opts e then [] else [UpdateMenu (Some (in_term inp))])"
  by (simp add: locate_fetch_def locate_primary_eq locate_secondary_eq aborted_at_end_def
        asks_secondary_def)

lemma locate_fetch_suggestions:
  "set (suggestions (locate_fetch opts inp e c)) \<subseteq>
     (if primary_succeeds e then set (primary_features opts inp e)
      else if asks_secondary opts e \<and> secondary_succeeds e
        then set (secondary_features opts inp e)
      else {})"
  by (simp add: locate_fetch_def locate_primary_eq locate_secondary_eq endLocate_suggestions)

lemma locate_fetch_options [simp]: "ctl_options (locate_fetch opts inp e c) = ctl_options c"
  by (simp add: locate_fetch_def locate_primary_eq locate_secondary_eq)

text \<open>\<^verbatim>\<open>gc._locate\<close> by the path it takes.\<close>

lemma locate_fetches:
  "starts_fetch c \<Longrightarrow> locate e c = locate_fetch (options_of c) (query c) e c"
  by (auto simp: locate_def starts_fetch_def query_def Let_def split: option.splits)

lemma locate_without_fetch:
  assumes "\<not> starts_fetch c"
  shows "cache (locate e c) = cache c"
    and "events (locate e c) =
           events c @ [UpdateMenu (if real (length (trim (input_value c))) < opt_minCharacters (options_of c)
                                    then None else Some (in_term (query c)))]"
  using assms
  by (auto simp: locate_def starts_fetch_def query_def Let_def split: option.splits)

lemma locate_options [simp]: "options_of (locate e c) = options_of c"
proof -
  have "ctl_options (locate e c) = ctl_options c"
    by (auto simp: locate_def Let_def split: option.splits)
  then show ?thesis
    by (simp add: options_of_def)
qed

text \<open>
  Claim C1, as amended. A resolution that is not aborted writes the cache only when it ends
  in a \<^verbatim>\<open>then\<close> handler: the primary service sent a non-empty array (the features that
  pass the validator are stored, also when none passes), or the secondary service was
  asked and sent at least one candidate (likewise). Every other ending leaves the cache as
  it was: a text that is too short, a cached query, a coordinate, and \<^verbatim>\<open>endLocate(false)\<close>
  after a failed or empty answer. In particular, when the primary service sends an empty
  array and \<^verbatim>\<open>include\<close> does not name \<^verbatim>\<open>gnis\<close>, the resolution ends with no suggestions
  and the cache does not change.
\<close>

theorem cache_written_on_success_only:
  "(\<not> starts_fetch c \<longrightarrow> cache (locate e c) = cache c) \<and>
   (starts_fetch c \<and> \<not> aborted_at_end (options_of c) e \<longrightarrow>
      cache (locate e c) =
        (if primary_succeeds e
           then (cache c)(in_cacheKey (query c) \<mapsto> primary_features (options_of c) (query c) e)
         else if asks_secondary (options_of c) e \<and> secondary_succeeds e
           then (cache c)(in_cacheKey (query c) \<mapsto> secondary_features (options_of c) (query c) e)
         else cache c)) \<and>
   (starts_fetch c \<and> \<not> aborted1 e \<and> primary e = Records [] \<and> \<not> gnis_included (options_of c) \<longrightarrow>
      suggestions (locate e c) = [] \<and> cache (locate e c) = cache c)"
proof (intro conjI impI)
  assume "\<not> starts_fetch c"
  then show "cache (locate e c) = cache c"
    by (rule locate_without_fetch)
next
  assume "starts_fetch c \<and> \<not> aborted_at_end (options_of c) e"
  then show "cache (locate e c) =
      (if primary_succeeds e
         then (cache c)(in_cacheKey (query c) \<mapsto> primary_features (options_of c) (query c) e)
       else if asks_secondary (options_of c) e \<and> secondary_succeeds e
         then (cache c)(in_cacheKey (query c) \<mapsto> secondary_features (options_of c) (query c) e)
       else cache c)"
    by (simp add: locate_fetches locate_fetch_cache)
next
  assume a: "starts_fetch c \<and> \<not> aborted1 e \<and> primary e = Records [] \<and> \<not> gnis_included (options_of c)"
  then have p: "\<not> primary_succeeds e" "\<not> asks_secondary (options_of c) e"
    by (simp_all add: primary_succeeds_def asks_secondary_def)
  with a have "\<not> aborted_at_end (options_of c) e"
    by (simp add: aborted_at_end_def)
  with a p show "suggestions (locate e c) = []"
    using locate_fetch_suggestions [of "options_of c" "query c" e c]
    by (simp add: locate_fetches)
  from a p show "cache (locate e c) = cache c"
    by (simp add: locate_fetches locate_fetch_cache)
qed

theorem cache_written_on_success_only_witness:
  "cache (locate quiet (typing ''a'')) = cache (typing ''a'') \<and>
   cache (locate answered (typing ''austin'')) =
     (cache (typing ''austin''))
       (''AUSTIN|undefined'' \<mapsto>
          primary_features (options_of (typing ''austin'')) (query (typing ''austin'')) answered) \<and>
   suggestions (locate quiet no_gnis_control) = [] \<and>
   cache (locate quiet no_gnis_control) = cache no_gnis_control"
proof -
  have a: "\<not> starts_fetch (typing ''a'')"
    by code_simp
  have b: "starts_fetch (typing ''austin'')" "\<not> aborted_at_end (options_of (typing ''austin'')) answered"
    "primary_succeeds answered" "in_cacheKey (query (typing ''austin'')) = ''AUSTIN|undefined''"
    by code_simp+
  have c: "starts_fetch no_gnis_control" "\<not> aborted1 quiet" "primary quiet = Records []"
    "\<not> gnis_included (options_of no_gnis_control)"
    by code_simp+
  show ?thesis
    using a b c
      cache_written_on_success_only [of "typing ''a''" quiet]
      cache_written_on_success_only [of "typing ''austin''" answered]
      cache_written_on_success_only [of no_gnis_control quiet]
    by simp
qed

text \<open>
  The claim as it was stated fails: the primary service sends an empty array, \<^verbatim>\<open>include\<close> is
  \<^verbatim>\<open>postal state\<close>, nothing is aborted, and the query is not in the cache afterwards.
\<close>

theorem empty_result_not_cached:
  "\<not> aborted1 quiet \<and> \<not> aborted2 quiet \<and> primary quiet = Records [] \<and>
   \<not> gnis_included (options_of no_gnis_control) \<and>
   suggestions (locate quiet no_gnis_control) = [] \<and>
   in_cacheKey (query no_gnis_control) = ''AUSTIN|undefined'' \<and>
   cache (locate quiet no_gnis_control) ''AUSTIN|undefined'' = None"
  by code_simp

text \<open>
  Claim C6. The abort controller of a resolution is made where the resolution starts to
  ask the services. When its signal is aborted by the time \<^verbatim>\<open>endLocate\<close> runs, the
  resolution has written nothing to the cache and has not called \<^verbatim>\<open>_updateMenu\<close>, which is
  the one place that notifies \<^verbatim>\<open>onSuggest\<close>.
\<close>

theorem aborted_cycle_is_silent:
  "starts_fetch c \<Longrightarrow> aborted_at_end (options_of c) e \<Longrightarrow>
   cache (locate e c) = cache c \<and> menu_updates (locate e c) = menu_updates c"
  by (simp add: locate_fetches locate_fetch_cache locate_fetch_events menu_updates_def)

theorem aborted_cycle_is_silent_witness:
  "cache (locate cancelled (typing ''austin'')) = cache (typing ''austin'') \<and>
   menu_updates (locate cancelled (typing ''austin'')) = menu_updates (typing ''austin'') \<and>
   cache (locate (quiet\<lparr>aborted2 := True\<rparr>) (typing ''austin'')) = cache (typing ''austin'') \<and>
   menu_updates (locate (quiet\<lparr>aborted2 := True\<rparr>) (typing ''austin'')) = menu_updates (typing ''austin'')"
proof -
  have a: "starts_fetch (typing ''austin'')" "aborted_at_end (options_of (typing ''austin'')) cancelled"
    "aborted_at_end (options_of (typing ''austin'')) (quiet\<lparr>aborted2 := True\<rparr>)"
    by code_simp+
  show ?thesis
    using a aborted_cycle_is_silent [of "typing ''austin''" cancelled]
      aborted_cycle_is_silent [of "typing ''austin''" "quiet\<lparr>aborted2 := True\<rparr>"]
    by simp
qed

section \<open>Properties: coordinates typed into the control\<close>

lemma split_on_not_Nil [simp]: "split_on c s \<noteq> []"
  by (induction s) (auto split: list.splits)

lemma hd_split_on: "hd (split_on c s) = takeWhile (\<lambda>x. x \<noteq> c) s"
proof (induction s)
  case Nil
  then show ?case by simp
next
  case (Cons x xs)
  then show ?case
    by (cases "split_on c xs") auto
qed

lemma length_split_on_Nil: "length (split_on c []) = 1"
  by simp

text \<open>What \<^verbatim>\<open>trim\<close> leaves does not start with white space.\<close>

lemma trim_hd:
  assumes "trim s \<noteq> []"
  shows "\<not> is_space (hd (trim s))"
proof -
  define t where "t = dropWhile is_space s"
  define u where "u = dropWhile is_space (rev t)"
  have tr: "trim s = rev u"
    by (simp add: trim_def t_def u_def)
  have "rev t = takeWhile is_space (rev t) @ u"
    by (simp add: u_def)
  then have "t = rev u @ rev (takeWhile is_space (rev t))"
    by (metis rev_append rev_rev_ident)
  moreover have "rev u \<noteq> []"
    using assms tr by simp
  ultimately have h: "hd t = hd (rev u)" and "t \<noteq> []"
    by (metis hd_append2, metis append_is_Nil_conv)
  then have "\<not> is_space (hd t)"
    unfolding t_def by (metis hd_dropWhile)
  with h tr show ?thesis
    by simp
qed

lemma trim_starts_nonspace: "\<not> is_space c \<Longrightarrow> trim (c # cs) \<noteq> []"
proof -
  assume c: "\<not> is_space c"
  then have "dropWhile is_space (rev (c # cs)) \<noteq> []"
    by (simp add: dropWhile_append)
  with c show ?thesis
    by (simp add: trim_def)
qed

lemma parse_latlon_length_ge: "parse_latlon parts = Some ll \<Longrightarrow> 2 \<le> length parts"
  using parse_latlon_length [of parts] by (cases "length parts \<in> {2, 4, 6, 8}") auto

text \<open>A text in which a coordinate was parsed has a term that is not empty.\<close>

lemma latlon_term_not_empty:
  assumes "in_latlon (parseInput opts v) = Some ll"
  shows "in_term (parseInput opts v) \<noteq> []"
proof -
  define parts where "parts = split_on CHR '' '' (parse_term v)"
  have len: "2 \<le> length parts"
    using assms parse_latlon_length_ge [of parts ll] by (simp add: parseInput_def Let_def parts_def)
  have t0: "parse_term v \<noteq> []"
    using len by (auto simp: parts_def)
  have "parse_term v = trim (expand_saint (collapse_spaces '' ''
      (map (\<lambda>c. if term_char c then c else CHR '' '') (toUpperCase v))))"
    by (simp add: parse_term_def)
  then have "\<not> is_space (hd (parse_term v))"
    using t0 trim_hd by metis
  then have "hd (parse_term v) \<noteq> CHR '' ''"
    by (auto simp: is_space_def)
  then have "takeWhile (\<lambda>x. x \<noteq> CHR '' '') (parse_term v) \<noteq> []"
    using t0 by (cases "parse_term v") auto
  then have h: "hd parts \<noteq> []"
    by (simp add: parts_def hd_split_on)
  obtain w ws where p: "parts = w # ws" "ws \<noteq> []"
    using len by (cases parts; cases "tl parts") auto
  then have "join '' '' (butlast parts) \<noteq> []"
    using h by (cases "butlast ws") auto
  with t0 show ?thesis
    by (simp add: parseInput_def Let_def parts_def)
qed

text \<open>The coordinate that was parsed is already rounded, so the validator stores it as it is.\<close>

lemma in_latlon_rounded:
  assumes "in_latlon (parseInput opts v) = Some ll"
  shows "roundCoord (fst ll) = fst ll \<and> roundCoord (snd ll) = snd ll"
proof -
  have "parse_latlon (split_on CHR '' '' (parse_term v)) = Some (fst ll, snd ll)"
    using assms by (simp add: parseInput_def Let_def)
  then have "fst ll * 10 ^ 6 \<in> \<int> \<and> snd ll * 10 ^ 6 \<in> \<int>"
    by (rule parse_latlon_rounded)
  then show ?thesis
    by (simp add: roundCoord_def nCoordDecimals_def toFixed_number_fixed)
qed

text \<open>
  The validator accepts the property object of a coordinate exactly when the coordinate
  is inside the active bounds and the empty state passes the state filter, which it does
  when no filter is active.
\<close>

lemma latlon_accepted_iff:
  "getFeature opts inp (latlon_properties ll) \<noteq> None \<longleftrightarrow>
     (let (latMin, lonMin, latMax, lonMax) = active_bounds opts
      in latMin \<le> fst ll \<and> fst ll \<le> latMax \<and> lonMin \<le> snd ll \<and> snd ll \<le> lonMax) \<and>
     state_allowed inp []"
proof -
  have t: "trim [] = []" "trim ''latlon'' \<noteq> []" "trim ''Latitude-Longitude Coordinate'' \<noteq> []"
    by (simp_all add: trim_def is_space_def)
  have n: "trim (''Coordinate ('' @ show_number (fst ll) @ '', '' @ show_number (snd ll) @ '')'') \<noteq> []"
    using trim_starts_nonspace [of "CHR ''C''"] by (simp add: is_space_def)
  show ?thesis
    using t n
    by (cases "active_bounds opts")
       (auto simp: getFeature_None_iff valid_record_def latlon_properties_def Let_def num_between_def)
qed

text \<open>
  Claim C5, as amended. When the text is long enough, the query is not cached, the term
  parses as a coordinate and the validator accepts the candidate made from it (the
  coordinate lies inside the active bounds and no state filter is active), a visible and
  enabled control ends the resolution with that single candidate, whose source is
  \<^verbatim>\<open>latlon\<close> and whose latitude and longitude are the parsed ones, and no request is made
  to either service.
\<close>

theorem coordinate_is_synthesized:
  assumes "\<not> real (length (trim (input_value c))) < opt_minCharacters (options_of c)"
    and "cache c (in_cacheKey (query c)) = None"
    and "in_latlon (query c) = Some ll"
    and "getFeature (options_of c) (query c) (latlon_properties ll) = Some f"
    and "\<not> hidden c" and "\<not> disabled c"
  shows "suggestions (locate e c) = [f] \<and> Source (properties f) = ''latlon'' \<and>
         Latitude (properties f) = Some (fst ll) \<and> Longitude (properties f) = Some (snd ll) \<and>
         requests (locate e c) = requests c"
proof -
  have nonempty: "in_term (query c) \<noteq> []"
    using assms(3) latlon_term_not_empty by (simp add: query_def)
  have loc: "locate e c = updateMenu (Some (in_term (query c))) (c\<lparr>suggestions := [f]\<rparr>)"
    using assms(1-4) by (simp add: locate_def query_def Let_def)
  have s: "suggestions (locate e c) = [f]"
    using nonempty assms(5,6) by (simp add: loc updateMenu_suggestions)
  have r: "requests (locate e c) = requests c"
    by (simp add: loc requests_def)
  have rounded: "roundCoord (fst ll) = fst ll \<and> roundCoord (snd ll) = snd ll"
    using assms(3) in_latlon_rounded by (simp add: query_def)
  have src: "Source (properties f) = ''latlon''"
    using getFeature_Some(5) [OF assms(4)] by (simp add: latlon_properties_def Let_def trim_def is_space_def)
  have lat: "Latitude (properties f) = Some (fst ll)"
    using getFeature_Some(1) [OF assms(4)] rounded by (simp add: latlon_properties_def Let_def)
  have lon: "Longitude (properties f) = Some (snd ll)"
    using getFeature_Some(2) [OF assms(4)] rounded by (simp add: latlon_properties_def Let_def)
  show ?thesis
    using s r src lat lon by simp
qed

theorem coordinate_is_synthesized_witness:
  "map (\<lambda>f. (Latitude (properties f), Longitude (properties f), Source (properties f)))
     (suggestions (locate quiet (typing ''44 57 53.2728 N 93 14 27.4812 W''))) =
     [(Some (44964798 / 1000000), Some (- (93240967 / 1000000)), ''latlon'')] \<and>
   requests (locate quiet (typing ''44 57 53.2728 N 93 14 27.4812 W'')) = []"
proof -
  define c where "c = typing ''44 57 53.2728 N 93 14 27.4812 W''"
  define ll :: "real \<times> real" where "ll = (44964798 / 1000000, - (93240967 / 1000000))"
  have h1: "\<not> real (length (trim (input_value c))) < opt_minCharacters (options_of c)"
    unfolding c_def by code_simp
  have h2: "cache c (in_cacheKey (query c)) = None"
    unfolding c_def by code_simp
  have h3: "in_latlon (query c) = Some ll"
    unfolding c_def ll_def by code_simp
  have "getFeature (options_of c) (query c) (latlon_properties ll) \<noteq> None"
    unfolding c_def ll_def by code_simp
  then obtain f where h4: "getFeature (options_of c) (query c) (latlon_properties ll) = Some f"
    by auto
  have h5: "\<not> hidden c" "\<not> disabled c" "requests c = []"
    unfolding c_def by code_simp+
  show ?thesis
    using coordinate_is_synthesized [OF h1 h2 h3 h4 h5(1,2), of quiet] h5(3)
    by (simp add: c_def [symmetric] ll_def)
qed

text \<open>
  The claim as it was stated fails: the text \<^verbatim>\<open>95 100\<close> parses as a coordinate, the
  validator rejects its latitude, and the resolution asks both services.
\<close>

theorem rejected_coordinate_is_fetched:
  "in_latlon (query (typing ''95 100'')) = Some (95, - 100) \<and>
   requests (locate quiet (typing ''95 100'')) = [Fetch1 ''95 100'' None, Fetch2 ''95 100'']"
  by code_simp

section \<open>Properties: what a resolution can surface\<close>

lemma map_filter_getFeature:
  "f \<in> set (List.map_filter (getFeature opts inp) ps) \<Longrightarrow> \<exists>p. getFeature opts inp p = Some f"
  by (auto simp: List.map_filter_def)

lemma primary_features_ok: "list_all (surfaced_ok opts) (primary_features opts inp e)"
proof -
  have "\<And>ps f. f \<in> set (List.map_filter (getFeature opts inp) ps) \<Longrightarrow> surfaced_ok opts f"
    using map_filter_getFeature getFeature_surfaced_ok by blast
  then show ?thesis
    by (cases "primary e") (simp_all add: primary_features_def list_all_iff)
qed

lemma add_candidate_ok:
  "list_all (surfaced_ok opts) fs \<Longrightarrow> list_all (surfaced_ok opts) (add_candidate opts inp fs a)"
  by (auto simp: add_candidate_def getFeature_surfaced_ok split: option.splits)

lemma foldl_add_candidate_ok:
  "list_all (surfaced_ok opts) fs \<Longrightarrow>
   list_all (surfaced_ok opts) (foldl (add_candidate opts inp) fs cs)"
  by (induction cs arbitrary: fs) (simp_all add: add_candidate_ok)

lemma set_insert_feature: "set (insert_feature a bs) = insert a (set bs)"
  by (induction bs) auto

lemma set_sort_features: "set (sort_features fs) = set fs"
  by (induction fs) (simp_all add: sort_features_def set_insert_feature)

lemma secondary_features_ok: "list_all (surfaced_ok opts) (secondary_features opts inp e)"
proof (cases "secondary e")
  case (Candidates cs)
  have "list_all (surfaced_ok opts) (foldl (add_candidate opts inp) [] cs)"
    by (rule foldl_add_candidate_ok) simp
  then show ?thesis
    using Candidates by (simp add: secondary_features_def list_all_iff set_sort_features)
qed (simp_all add: secondary_features_def)

lemma cache_ok_update:
  assumes "cache_ok c" and "list_all (surfaced_ok (options_of c)) fs"
    and "options_of c' = options_of c" and "cache c' = (cache c)(k \<mapsto> fs)"
  shows "cache_ok c'"
  using assms by (auto simp: cache_ok_def ran_def)

lemma cache_ok_same:
  "cache_ok c \<Longrightarrow> options_of c' = options_of c \<Longrightarrow> cache c' = cache c \<Longrightarrow> cache_ok c'"
  by (simp add: cache_ok_def)

lemma locate_fetch_ok:
  assumes "cache_ok c" and "opts = options_of c"
  shows "cache_ok (locate_fetch opts inp e c)"
    and "list_all (surfaced_ok opts) (suggestions (locate_fetch opts inp e c))"
proof -
  have o: "options_of (locate_fetch opts inp e c) = options_of c"
    by (simp add: options_of_def)
  consider "cache (locate_fetch opts inp e c) = cache c"
    | "cache (locate_fetch opts inp e c) = (cache c)(in_cacheKey inp \<mapsto> primary_features opts inp e)"
    | "cache (locate_fetch opts inp e c) = (cache c)(in_cacheKey inp \<mapsto> secondary_features opts inp e)"
    by (cases "aborted_at_end opts e"; cases "primary_succeeds e";
        cases "asks_secondary opts e \<and> secondary_succeeds e")
       (simp_all add: locate_fetch_cache)
  then show "cache_ok (locate_fetch opts inp e c)"
  proof cases
    case 1
    then show ?thesis
      using assms(1) o by (rule cache_ok_same [rotated 2])
  next
    case 2
    show ?thesis
      using assms(1) primary_features_ok [of "options_of c" inp e] o 2
      unfolding assms(2) by (rule cache_ok_update)
  next
    case 3
    show ?thesis
      using assms(1) secondary_features_ok [of "options_of c" inp e] o 3
      unfolding assms(2) by (rule cache_ok_update)
  qed
  show "list_all (surfaced_ok opts) (suggestions (locate_fetch opts inp e c))"
    using locate_fetch_suggestions [of opts inp e c]
      primary_features_ok [of opts inp e] secondary_features_ok [of opts inp e]
    by (auto simp: list_all_iff split: if_splits)
qed

lemma locate_ok:
  assumes "cache_ok c"
  shows "cache_ok (locate e c) \<and> list_all (surfaced_ok (options_of c)) (suggestions (locate e c))"
proof (cases "starts_fetch c")
  case True
  then show ?thesis
    using locate_fetch_ok [OF assms refl, of "query c" e] by (simp add: locate_fetches)
next
  case False
  have c: "cache_ok (locate e c)"
    using assms locate_without_fetch(1) [OF False, of e] by (simp add: cache_ok_def)
  have "set (suggestions (locate e c)) \<subseteq>
      (case cache c (in_cacheKey (query c)) of
         Some fs \<Rightarrow> set fs
       | None \<Rightarrow> (case in_latlon (query c) of
           None \<Rightarrow> {}
         | Some ll \<Rightarrow> set_option (getFeature (options_of c) (query c) (latlon_properties ll))))"
    using False
    by (auto simp: locate_def starts_fetch_def query_def Let_def updateMenu_suggestions
             split: option.splits if_splits)
  moreover have "\<And>fs. cache c (in_cacheKey (query c)) = Some fs \<Longrightarrow>
      list_all (surfaced_ok (options_of c)) fs"
    using assms by (auto simp: cache_ok_def ran_def)
  ultimately have "list_all (surfaced_ok (options_of c)) (suggestions (locate e c))"
    using getFeature_surfaced_ok
    by (auto simp: list_all_iff split: option.splits)
  with c show ?thesis
    by simp
qed

text \<open>
  Claim C8, as amended. A record that the validator lets through has, as the service sent
  it, a latitude and a longitude within the configured bounds, a score that is missing or
  at least the minimum, and a type, a name and a source; any other record yields no
  feature at all. The feature that is surfaced holds the latitude and the longitude
  rounded to six decimals, so they lie within the bounds rounded to six decimals (the
  bounds themselves when these have no more decimals, as the default has), its score is at
  least the minimum, and its type, name and source are present. Every feature that a
  resolution puts into the suggestions or the cache has come through the validator, so
  these checks hold of all of them as long as they hold of the cache before.
\<close>

theorem surfaced_candidates_validated:
  "(getFeature opts inp p = Some f \<longrightarrow> raw_ok opts p \<and> surfaced_ok opts f) \<and>
   (\<not> raw_ok opts p \<longrightarrow> getFeature opts inp p = None) \<and>
   (cache_ok c \<longrightarrow>
      cache_ok (locate e c) \<and> list_all (surfaced_ok (options_of c)) (suggestions (locate e c)))"
  using getFeature_raw_ok [of opts inp p] getFeature_surfaced_ok [of opts inp p] locate_ok [of c e]
  by (cases "getFeature opts inp p") auto

theorem surfaced_candidates_validated_witness:
  "raw_ok default_options austin \<and>
   list_all (surfaced_ok default_options)
     (List.map_filter (getFeature default_options (query (typing ''austin''))) [austin]) \<and>
   getFeature default_options (query (typing ''austin'')) (austin\<lparr>Score := Some 79\<rparr>) = None \<and>
   cache_ok (locate answered (typing ''austin'')) \<and>
   list_all (surfaced_ok (options_of (typing ''austin''))) (suggestions (locate answered (typing ''austin'')))"
proof -
  have "getFeature default_options (query (typing ''austin'')) austin \<noteq> None"
    by code_simp
  then obtain f where f: "getFeature default_options (query (typing ''austin'')) austin = Some f"
    by auto
  have b: "\<not> raw_ok default_options (austin\<lparr>Score := Some 79\<rparr>)"
    by code_simp
  have c: "cache_ok (typing ''austin'')"
    by (simp add: cache_ok_def typing_def new_control_def)
  show ?thesis
    using f b c
      surfaced_candidates_validated [of default_options "query (typing ''austin'')" austin f
        "typing ''austin''" answered]
      surfaced_candidates_validated [of default_options "query (typing ''austin'')"
        "austin\<lparr>Score := Some 79\<rparr>" f "typing ''austin''" answered]
    by (simp add: List.map_filter_def)
qed

text \<open>
  The claim as it was stated fails: with a lower latitude bound of 4.0000001 degrees, a
  place at 4.0000002 degrees passes the validator and is surfaced at the latitude 4, which
  is below the bound.
\<close>

theorem surfaced_latitude_below_bound:
  "active_bounds tight_bounds = (40000001 / 10000000, - 95, 45, - 90) \<and>
   Latitude near_edge = Some (40000002 / 10000000) \<and>
   map_option (\<lambda>f. Latitude (properties f))
     (getFeature tight_bounds (query (typing ''austin'')) near_edge) = Some (Some 4) \<and>
   \<not> (40000001 / 10000000 \<le> (4 :: real))"
  by code_simp

section \<open>Properties: setOptions\<close>

lemma typeof_object_cases:
  "typeof_object v \<Longrightarrow> v \<noteq> Null \<Longrightarrow> \<exists>ps. own_properties v = Inr ps"
  by (cases v) (simp_all add: typeof_object_def own_properties_def)

text \<open>
  Claim C10, as amended. A call of \<^verbatim>\<open>setOptions\<close> whose argument is an object other than
  \<^verbatim>\<open>null\<close>, also an empty object and one with unrecognized options only, or a pair of a
  name and a value, empties the cache, the suggestions and the selection, so that
  \<^verbatim>\<open>getSelected()\<close> is undefined afterwards. A call with one argument that is not an
  object, or with none, is refused with a warning and returns the control as it is: the
  cache, the suggestions and the selection stay.
\<close>

theorem setOptions_resets:
  "(typeof_object (newOptions args) \<and> newOptions args \<noteq> Null \<longrightarrow>
      (\<exists>c'. setOptions args c = Inr c' \<and> cache c' = Map.empty \<and> suggestions c' = [] \<and>
            selected c' = None)) \<and>
   (2 \<le> length args \<longrightarrow> typeof_object (newOptions args) \<and> newOptions args \<noteq> Null) \<and>
   (\<not> typeof_object (newOptions args) \<longrightarrow> setOptions args c = Inr c) \<and>
   (newOptions args = Null \<longrightarrow> setOptions args c = Inl TypeError)"
proof -
  have object: "\<exists>c'. setOptions args c = Inr c' \<and> cache c' = Map.empty \<and> suggestions c' = [] \<and>
      selected c' = None"
    if a: "typeof_object (newOptions args) \<and> newOptions args \<noteq> Null"
  proof -
    from a obtain ps where "own_properties (newOptions args) = Inr ps"
      using typeof_object_cases by blast
    with a show ?thesis
      by (simp add: setOptions_def Let_def)
  qed
  have pair: "typeof_object (newOptions args) \<and> newOptions args \<noteq> Null" if "2 \<le> length args"
    using that by (simp add: newOptions_def typeof_object_def)
  have refused: "setOptions args c = Inr c" if "\<not> typeof_object (newOptions args)"
    using that by (simp add: setOptions_def)
  have null: "setOptions args c = Inl TypeError" if "newOptions args = Null"
    using that by (simp add: setOptions_def typeof_object_def own_properties_def)
  show ?thesis
    using object pair refused null by blast
qed

theorem setOptions_resets_witness:
  "(\<exists>c'. setOptions [JObj []] used_control = Inr c' \<and> cache c' = Map.empty \<and>
         suggestions c' = [] \<and> selected c' = None) \<and>
   (\<exists>c'. setOptions [JObj [(''colour'', JStr ''red'')]] used_control = Inr c' \<and>
         cache c' = Map.empty \<and> suggestions c' = [] \<and> selected c' = None) \<and>
   (\<exists>c'. setOptions [JStr ''states'', JStr ''tx''] used_control = Inr c' \<and>
         cache c' = Map.empty \<and> suggestions c' = [] \<and> selected c' = None) \<and>
   setOptions [JNum 5] used_control = Inr used_control \<and>
   setOptions [Null] used_control = Inl TypeError"
proof -
  have a: "typeof_object (newOptions [JObj []]) \<and> newOptions [JObj []] \<noteq> Null"
    "typeof_object (newOptions [JObj [(''colour'', JStr ''red'')]]) \<and>
     newOptions [JObj [(''colour'', JStr ''red'')]] \<noteq> Null"
    "2 \<le> length [JStr ''states'', JStr ''tx'']"
    "\<not> typeof_object (newOptions [JNum 5])"
    "newOptions [Null] = Null"
    by (simp_all add: newOptions_def typeof_object_def)
  show ?thesis
    using a
      setOptions_resets [of "[JObj []]" used_control]
      setOptions_resets [of "[JObj [(''colour'', JStr ''red'')]]" used_control]
      setOptions_resets [of "[JStr ''states'', JStr ''tx'']" used_control]
      setOptions_resets [of "[JNum 5]" used_control]
      setOptions_resets [of "[Null]" used_control]
    by blast
qed

text \<open>
  The claim as it was stated fails: \<^verbatim>\<open>setOptions('size')\<close>, a name without its value, leaves
  the selection, the suggestions and the cache of a control that has them.
\<close>

theorem setOptions_refused_keeps_state:
  "(case setOptions [JStr ''size''] used_control of
      Inl _ \<Rightarrow> False
    | Inr c' \<Rightarrow> selected c' \<noteq> None \<and> suggestions c' \<noteq> [] \<and> cache c' ''AUSTIN|undefined'' \<noteq> None)"
  by code_simp

section \<open>Properties: the menu of search_api.js\<close>

text \<open>The loop finds a cached empty answer among the prefixes longer than the minimum.\<close>

lemma shorter_had_no_results_iff:
  "shorter_had_no_results min_char menu_cache term_cache states n \<longleftrightarrow>
     (\<exists>k. min_char < k \<and> k \<le> n \<and> menu_cache (take k term_cache @ ''|'' @ states) = Some [])"
proof (induction n)
  case 0
  then show ?case by simp
next
  case (Suc n)
  show ?case
  proof (cases "min_char < Suc n")
    case False
    then show ?thesis by auto
  next
    case True
    show ?thesis
    proof (cases "menu_cache (take (Suc n) term_cache @ ''|'' @ states) = Some []")
      case True
      with \<open>min_char < Suc n\<close> show ?thesis by auto
    next
      case False
      then have "shorter_had_no_results min_char menu_cache term_cache states (Suc n) =
          shorter_had_no_results min_char menu_cache term_cache states n"
        using True by (auto split: option.splits list.splits)
      also have "\<dots> = (\<exists>k. min_char < k \<and> k \<le> n \<and>
          menu_cache (take k term_cache @ ''|'' @ states) = Some [])"
        by (rule Suc.IH)
      also have "\<dots> = (\<exists>k. min_char < k \<and> k \<le> Suc n \<and>
          menu_cache (take k term_cache @ ''|'' @ states) = Some [])"
        using False by (metis le_Suc_eq)
      finally show ?thesis .
    qed
  qed
qed

text \<open>
  Claim C2. A term whose strict prefix is cached with no results, down to a prefix as long
  as the minimum number of characters, resolves to no suggestions without a request. The
  loop of the source stops above the minimum (\<^verbatim>\<open>n > o.opts.menu_min_char\<close>), so the
  shortest request that can be made at all is never looked up: with the default minimum
  of 3, the empty answer to \<^verbatim>\<open>AUS\<close> is cached, and \<^verbatim>\<open>AUST\<close> is requested all the same.
\<close>

theorem keyup_extension_of_minimal_term:
  "menu_min_char sa_default = 3 \<and>
   keyup sa_default (Map.empty :: string \<rightharpoonup> unit list) 83 ''aus'' = NewRequest ''AUS'' ''ALL'' \<and>
   request_success Map.empty ''AUS'' ''ALL'' ([] :: unit list) ''AUS|ALL'' = Some [] \<and>
   keyup sa_default (request_success Map.empty ''AUS'' ''ALL'' ([] :: unit list)) 84 ''aust'' =
     NewRequest ''AUST'' ''ALL'' \<and>
   keyup sa_default (request_success Map.empty ''AUST'' ''ALL'' ([] :: unit list)) 73 ''austi'' =
     ShowData ''AUSTI'' []"
  by code_simp

end
